theory Spec2Isabelle
  imports Complex_Main "HOL-Library.Char_ord" "HOL-Library.List_Lexorder"
begin

section \<open>Multi-label classification notebook: metrics, label encoder, dataset adapter\<close>

text \<open>
  The development follows the cells of \<^verbatim>\<open>multi_label_classify.ipynb\<close>. Arrays and tensors
  of shape (examples, labels) are lists of rows. Numbers are exact reals. The program
  computes in 32-bit and 64-bit floating point; its rounding is not part of this model.
  Functions of scikit-learn, PyTorch and the tokenizer library are not part of the
  notebook; the ones the notebook calls are modelled after their documented behaviour,
  each marked as such.
\<close>

subsection \<open>Arrays\<close>

type_synonym matrix = "real list list"

datatype failure = ValueError | IndexError | UnsupportedTarget

definition n_columns :: "'a list list \<Rightarrow> nat" where
  "n_columns M = (case M of [] \<Rightarrow> 0 | r # _ \<Rightarrow> length r)"

definition shape :: "'a list list \<Rightarrow> nat \<times> nat" where
  "shape M = (length M, n_columns M)"

definition rectangular :: "'a list list \<Rightarrow> bool" where
  "rectangular M = list_all (\<lambda>r. length r = n_columns M) M"

definition column :: "'a list list \<Rightarrow> nat \<Rightarrow> 'a list" where
  "column M j = map (\<lambda>r. r ! j) M"

text \<open>\<^verbatim>\<open>np.zeros(shape)\<close>.\<close>

definition np_zeros :: "nat \<times> nat \<Rightarrow> matrix" where
  "np_zeros s = replicate (fst s) (replicate (snd s) 0)"

text \<open>\<^verbatim>\<open>np.where(probs >= threshold)\<close>: the index pairs, in row-major order, whose
  entry is at least the threshold.\<close>

definition np_where_ge :: "matrix \<Rightarrow> real \<Rightarrow> (nat \<times> nat) list" where
  "np_where_ge P t =
     concat (map (\<lambda>i. map (\<lambda>j. (i, j)) (filter (\<lambda>j. t \<le> P ! i ! j) [0..<length (P ! i)]))
                 [0..<length P])"

text \<open>\<^verbatim>\<open>y[idx] = 1\<close> for a list of index pairs inside the array.\<close>

fun assign_ones :: "matrix \<Rightarrow> (nat \<times> nat) list \<Rightarrow> matrix" where
  "assign_ones Y [] = Y"
| "assign_ones Y ((i, j) # ps) = assign_ones (Y[i := (Y ! i)[j := 1]]) ps"

subsection \<open>Step 1 and 2 of \<^verbatim>\<open>multi_label_metrics\<close>: sigmoid and threshold\<close>

text \<open>
  \<^verbatim>\<open>torch.nn.Sigmoid()\<close>, documented as \<open>1 / (1 + exp (- x))\<close>. This is the exact
  function. The tensor of the program holds 32-bit floats: there the result is rounded, and
  for scores of large magnitude it is exactly 1.0 or 0.0, which the exact function never
  is. The theorems use the function for what a comparison with a threshold gives, never
  for the range of the rounded value.
\<close>

definition sigmoid :: "real \<Rightarrow> real" where
  "sigmoid s = 1 / (1 + exp (- s))"

text \<open>\<^verbatim>\<open>probs = sigmoid(torch.Tensor(predictions))\<close>.\<close>

definition probs_of :: "matrix \<Rightarrow> matrix" where
  "probs_of predictions = map (map sigmoid) predictions"

text \<open>The default of the keyword parameter \<^verbatim>\<open>threshold=0.3\<close>: \<open>None\<close> is a call
  that does not pass the parameter.\<close>

definition threshold_of :: "real option \<Rightarrow> real" where
  "threshold_of arg = (case arg of None \<Rightarrow> 3 / 10 | Some t \<Rightarrow> t)"

text \<open>
  \<^verbatim>\<open>y_pred = np.zeros(probs.shape); y_pred[np.where(probs >= threshold)] = 1\<close>
\<close>

definition y_pred_of :: "matrix \<Rightarrow> real \<Rightarrow> matrix" where
  "y_pred_of probs threshold = assign_ones (np_zeros (shape probs)) (np_where_ge probs threshold)"

subsection \<open>The inference cell\<close>

text \<open>
  \<^verbatim>\<open>predicted_probabilities = outputs.logits.sigmoid().detach().numpy()\<close>
  \<^verbatim>\<open>binary_predictions = (predicted_probabilities > 0.1).astype(int)\<close>
\<close>

definition predicted_probabilities :: "matrix \<Rightarrow> matrix" where
  "predicted_probabilities logits = map (map sigmoid) logits"

definition binary_predictions :: "matrix \<Rightarrow> int list list" where
  "binary_predictions logits =
     map (map (\<lambda>p. if 1 / 10 < p then 1 else 0)) (predicted_probabilities logits)"

subsection \<open>The scikit-learn metrics the notebook calls\<close>

text \<open>
  \<^verbatim>\<open>f1_score\<close>, \<open>roc_auc_score\<close> and \<open>hamming_loss\<close> belong to scikit-learn, not to the
  notebook. They are modelled here after the library's documentation and reference
  implementation, for the two target types a 0/1 array can have: a rectangular 0/1 array
  with at least one row is a \<^emph>\<open>binary\<close> target when it has one column (the library
  flattens it to a vector of class labels) and a \<^emph>\<open>multilabel-indicator\<close> target when it
  has two or more. Arrays with other entries, without rows or without columns are outside
  the model, which answers \<open>UnsupportedTarget\<close> for them.

  A metric value is a Python float: a number or \<^verbatim>\<open>nan\<close>.
\<close>

datatype py_float = Float real | NaN

datatype target_type = Binary | MultilabelIndicator

definition type_of_target :: "matrix \<Rightarrow> target_type option" where
  "type_of_target Y =
     (if rectangular Y \<and> 1 \<le> length Y \<and> list_all (list_all (\<lambda>y. y = 0 \<or> y = 1)) Y then
        (if n_columns Y = 1 then Some Binary
         else if 2 \<le> n_columns Y then Some MultilabelIndicator
         else None)
      else None)"

text \<open>
  \<^verbatim>\<open>_check_targets\<close>: the two arrays need the same number of samples and the same
  target type; a binary target against a multilabel-indicator target is a
  \<^verbatim>\<open>ValueError\<close>, and so are multilabel-indicator targets of different widths (the
  array arithmetic that follows raises it).
\<close>

definition check_targets :: "matrix \<Rightarrow> matrix \<Rightarrow> failure + target_type" where
  "check_targets y_true y_pred =
     (if length y_true \<noteq> length y_pred then Inl ValueError
      else
        (case type_of_target y_true of
           None \<Rightarrow> Inl UnsupportedTarget
         | Some t \<Rightarrow>
             (case type_of_target y_pred of
                None \<Rightarrow> Inl UnsupportedTarget
              | Some p \<Rightarrow>
                  if t = p \<and> n_columns y_true = n_columns y_pred then Inr t
                  else Inl ValueError)))"

text \<open>\<^verbatim>\<open>column_or_1d\<close>: an array of one column as a vector.\<close>

definition column_or_1d :: "matrix \<Rightarrow> real list" where
  "column_or_1d Y = concat Y"

text \<open>Elementwise arithmetic of two arrays (\<^verbatim>\<open>y_true - y_pred\<close>, \<^verbatim>\<open>y_true.multiply(y_pred)\<close>).\<close>

definition elementwise :: "(real \<Rightarrow> real \<Rightarrow> real) \<Rightarrow> matrix \<Rightarrow> matrix \<Rightarrow> matrix" where
  "elementwise f A B = map (\<lambda>(a, b). map (\<lambda>(x, y). f x y) (zip a b)) (zip A B)"

text \<open>\<^verbatim>\<open>count_nonzero(X)\<close> over the whole array, and \<^verbatim>\<open>count_nonzero(X, axis=0)\<close>
  per column.\<close>

definition count_nonzero :: "matrix \<Rightarrow> nat" where
  "count_nonzero X = length (filter (\<lambda>x. x \<noteq> 0) (concat X))"

definition count_nonzero_axis0 :: "matrix \<Rightarrow> nat list" where
  "count_nonzero_axis0 X = map (\<lambda>j. length (filter (\<lambda>r. r ! j \<noteq> 0) X)) [0..<n_columns X]"

text \<open>
  \<^verbatim>\<open>hamming_loss(y_true, y_pred)\<close>. Multilabel branch:
  \<^verbatim>\<open>n_differences = count_nonzero(y_true - y_pred)\<close>,
  \<^verbatim>\<open>return n_differences / (y_true.shape[0] * y_true.shape[1])\<close>.
  Binary branch: the mean of \<^verbatim>\<open>y_true != y_pred\<close> over the flattened vectors.
\<close>

definition hamming_loss :: "matrix \<Rightarrow> matrix \<Rightarrow> failure + real" where
  "hamming_loss y_true y_pred =
     (case check_targets y_true y_pred of
        Inl e \<Rightarrow> Inl e
      | Inr MultilabelIndicator \<Rightarrow>
          Inr (real (count_nonzero (elementwise (-) y_true y_pred))
               / real (length y_true * n_columns y_true))
      | Inr Binary \<Rightarrow>
          Inr (real (length (filter (\<lambda>(a, b). a \<noteq> b)
                               (zip (column_or_1d y_true) (column_or_1d y_pred))))
               / real (length (column_or_1d y_true))))"

text \<open>\<^verbatim>\<open>_prf_divide\<close> with \<^verbatim>\<open>zero_division="warn"\<close>: the quotient, and 0 (with a
  warning) where the denominator is 0.\<close>

definition prf_divide :: "real \<Rightarrow> real \<Rightarrow> real" where
  "prf_divide numerator denominator = (if denominator = 0 then 0 else numerator / denominator)"

text \<open>
  \<^verbatim>\<open>f1_score(y_true, y_pred, average='macro')\<close>. With \<open>beta = 1\<close> the score of one
  label or class is \<^verbatim>\<open>_prf_divide(2 * tp_sum, true_sum + pred_sum)\<close>, and
  \<^verbatim>\<open>average='macro'\<close> is \<^verbatim>\<open>np.average\<close> of these scores without weights.

  Multilabel branch: one score per label column, from the column sums
  \<^verbatim>\<open>tp_sum = count_nonzero(y_true.multiply(y_pred), axis=0)\<close>,
  \<^verbatim>\<open>pred_sum = count_nonzero(y_pred, axis=0)\<close>, \<^verbatim>\<open>true_sum = count_nonzero(y_true, axis=0)\<close>.

  Binary branch: one score per class, for the classes
  \<^verbatim>\<open>unique_labels(y_true, y_pred)\<close> that occur in either vector, in sorted order;
  for a class, \<^verbatim>\<open>tp_sum\<close> counts the samples where both vectors hold it,
  \<^verbatim>\<open>true_sum\<close> and \<^verbatim>\<open>pred_sum\<close> the samples where \<^verbatim>\<open>y_true\<close> or \<^verbatim>\<open>y_pred\<close> does.
\<close>

definition unique_labels :: "real list \<Rightarrow> real list \<Rightarrow> real list" where
  "unique_labels t p = sort (remdups (t @ p))"

definition f1_score_macro :: "matrix \<Rightarrow> matrix \<Rightarrow> failure + real" where
  "f1_score_macro y_true y_pred =
     (case check_targets y_true y_pred of
        Inl e \<Rightarrow> Inl e
      | Inr MultilabelIndicator \<Rightarrow>
          (let tp_sum = count_nonzero_axis0 (elementwise (*) y_true y_pred);
               pred_sum = count_nonzero_axis0 y_pred;
               true_sum = count_nonzero_axis0 y_true;
               f_score = map (\<lambda>j. prf_divide (2 * real (tp_sum ! j))
                                       (real (true_sum ! j) + real (pred_sum ! j)))
                             [0..<length tp_sum]
           in Inr (sum_list f_score / real (length f_score)))
      | Inr Binary \<Rightarrow>
          (let t = column_or_1d y_true;
               p = column_or_1d y_pred;
               f_score = map (\<lambda>c. prf_divide
                                  (2 * real (length (filter (\<lambda>(a, b). a = c \<and> b = c) (zip t p))))
                                  (real (length (filter (\<lambda>a. a = c) t))
                                   + real (length (filter (\<lambda>b. b = c) p))))
                             (unique_labels t p)
           in Inr (sum_list f_score / real (length f_score))))"

text \<open>
  \<^verbatim>\<open>_binary_clf_curve\<close>: for every distinct score, in decreasing order, the number of
  negatives and of positives (\<^verbatim>\<open>pos_label = 1\<close>) whose score is at least that value.
\<close>

definition binary_clf_curve :: "real list \<Rightarrow> real list \<Rightarrow> (nat \<times> nat) list" where
  "binary_clf_curve y_true y_score =
     map (\<lambda>t. (length (filter (\<lambda>(y, s). t \<le> s \<and> y \<noteq> 1) (zip y_true y_score)),
               length (filter (\<lambda>(y, s). t \<le> s \<and> y = 1) (zip y_true y_score))))
         (rev (sort (remdups y_score)))"

text \<open>\<^verbatim>\<open>roc_curve\<close>: the curve starts at (0, 0); the counts are divided by their last
  values. (Dropping collinear points, as the library does, leaves the area unchanged.)\<close>

definition roc_curve :: "real list \<Rightarrow> real list \<Rightarrow> (real \<times> real) list" where
  "roc_curve y_true y_score =
     (let c = binary_clf_curve y_true y_score;
          fps_last = fst (last c);
          tps_last = snd (last c)
      in (0, 0) # map (\<lambda>(fps, tps). (real fps / real fps_last, real tps / real tps_last)) c)"

text \<open>\<^verbatim>\<open>auc(fpr, tpr)\<close>: the trapezoidal rule.\<close>

fun auc :: "(real \<times> real) list \<Rightarrow> real" where
  "auc ((x0, y0) # (x1, y1) # ps) = (x1 - x0) * (y0 + y1) / 2 + auc ((x1, y1) # ps)"
| "auc ps = 0"

text \<open>\<^verbatim>\<open>_binary_roc_auc_score\<close>: the score is undefined unless both classes occur in
  \<^verbatim>\<open>y_true\<close>; the library then warns and returns \<^verbatim>\<open>nan\<close>. (Older releases raise
  \<^verbatim>\<open>ValueError\<close> instead; with them \<^verbatim>\<open>multi_label_metrics\<close> returns nothing on
  such a target.)\<close>

definition binary_roc_auc_score :: "real list \<Rightarrow> real list \<Rightarrow> py_float" where
  "binary_roc_auc_score y_true y_score =
     (if length (remdups y_true) \<noteq> 2 then NaN
      else Float (auc (roc_curve y_true y_score)))"

text \<open>The per-column results in column order; the first failure is the result.\<close>

fun collect :: "(failure + 'a) list \<Rightarrow> failure + 'a list" where
  "collect [] = Inr []"
| "collect (Inl e # rs) = Inl e"
| "collect (Inr x # rs) = (case collect rs of Inl e \<Rightarrow> Inl e | Inr xs \<Rightarrow> Inr (x # xs))"

text \<open>\<^verbatim>\<open>np.average(score)\<close> without weights: \<^verbatim>\<open>nan\<close> as soon as one score is.\<close>

fun py_add :: "py_float \<Rightarrow> py_float \<Rightarrow> py_float" where
  "py_add (Float a) (Float b) = Float (a + b)"
| "py_add _ _ = NaN"

fun py_div :: "py_float \<Rightarrow> nat \<Rightarrow> py_float" where
  "py_div (Float a) n = Float (a / real n)"
| "py_div NaN n = NaN"

definition np_average :: "py_float list \<Rightarrow> py_float" where
  "np_average score = py_div (foldr py_add score (Float 0)) (length score)"

text \<open>
  \<^verbatim>\<open>roc_auc_score(y_true, y_score, average='macro')\<close>. The target type is the one of
  \<^verbatim>\<open>y_true\<close>; the second argument is an array of scores with as many rows, and need
  not be 0/1. Binary branch: the binary score of the flattened vectors (a score array of
  more than one column cannot be flattened: \<^verbatim>\<open>ValueError\<close>). Multilabel branch
  (\<^verbatim>\<open>_average_binary_score\<close>): for every column \<open>c\<close> of \<^verbatim>\<open>y_score\<close> the binary score
  of column \<open>c\<close> of both arrays, taking a column that \<^verbatim>\<open>y_true\<close> does not have being
  an \<^verbatim>\<open>IndexError\<close>; then the unweighted mean.
\<close>

definition roc_auc_score_macro :: "matrix \<Rightarrow> matrix \<Rightarrow> failure + py_float" where
  "roc_auc_score_macro y_true y_score =
     (case type_of_target y_true of
        None \<Rightarrow> Inl UnsupportedTarget
      | Some t \<Rightarrow>
          if rectangular y_score \<and> length y_score = length y_true \<and> 1 \<le> n_columns y_score then
            (case t of
               Binary \<Rightarrow>
                 if n_columns y_score = 1
                 then Inr (binary_roc_auc_score (column_or_1d y_true) (column_or_1d y_score))
                 else Inl ValueError
             | MultilabelIndicator \<Rightarrow>
                 (case collect (map (\<lambda>c. if c < n_columns y_true
                                          then Inr (binary_roc_auc_score (column y_true c)
                                                                          (column y_score c))
                                          else Inl IndexError)
                                    [0..<n_columns y_score]) of
                    Inl e \<Rightarrow> Inl e
                  | Inr score \<Rightarrow> Inr (np_average score)))
          else Inl ValueError)"

subsection \<open>\<^verbatim>\<open>multi_label_metrics\<close> and \<^verbatim>\<open>compute_metrics\<close>\<close>

text \<open>
  The three metric calls run in the order of the source (f1, roc_auc, hamming); an
  exception of one of them ends the function. The result is the dictionary
  \<^verbatim>\<open>{"roc_auc": roc_auc, "hamming_loss": hamming, "f1": f1}\<close>.
\<close>

definition multi_label_metrics ::
  "matrix \<Rightarrow> matrix \<Rightarrow> real option \<Rightarrow> failure + (string \<rightharpoonup> py_float)" where
  "multi_label_metrics predictions labels threshold_arg =
     (let threshold = threshold_of threshold_arg;
          probs = probs_of predictions;
          y_pred = y_pred_of probs threshold;
          y_true = labels
      in case f1_score_macro y_true y_pred of
           Inl e \<Rightarrow> Inl e
         | Inr f1 \<Rightarrow>
             (case roc_auc_score_macro y_true y_pred of
                Inl e \<Rightarrow> Inl e
              | Inr roc_auc \<Rightarrow>
                  (case hamming_loss y_true y_pred of
                     Inl e \<Rightarrow> Inl e
                   | Inr hamming \<Rightarrow>
                       Inr [''roc_auc'' \<mapsto> roc_auc, ''hamming_loss'' \<mapsto> Float hamming,
                            ''f1'' \<mapsto> Float f1])))"

text \<open>\<^verbatim>\<open>EvalPrediction\<close>: \<^verbatim>\<open>predictions\<close> is an array or a tuple of arrays.\<close>

datatype model_output = Tuple "matrix list" | Array matrix

record EvalPrediction =
  predictions :: model_output
  label_ids :: matrix

text \<open>
  \<^verbatim>\<open>preds = p.predictions[0] if isinstance(p.predictions, tuple) else p.predictions\<close>;
  indexing an empty tuple raises \<^verbatim>\<open>IndexError\<close>.
\<close>

definition preds_of :: "model_output \<Rightarrow> failure + matrix" where
  "preds_of out =
     (case out of
        Tuple ts \<Rightarrow> (case ts of [] \<Rightarrow> Inl IndexError | t # _ \<Rightarrow> Inr t)
      | Array a \<Rightarrow> Inr a)"

definition compute_metrics :: "EvalPrediction \<Rightarrow> failure + (string \<rightharpoonup> py_float)" where
  "compute_metrics p =
     (case preds_of (predictions p) of
        Inl e \<Rightarrow> Inl e
      | Inr preds \<Rightarrow> multi_label_metrics preds (label_ids p) None)"

subsection \<open>The label encoder\<close>

text \<open>
  \<^verbatim>\<open>MultiLabelBinarizer\<close> belongs to scikit-learn; it is modelled after its documentation.
  Fitting stores \<^verbatim>\<open>classes_ = sorted(set(itertools.chain.from_iterable(y)))\<close>.
  \<^verbatim>\<open>transform\<close> writes one indicator row per label list, a 1 in the column of every
  class that occurs in it (a label outside the classes is dropped with a warning).
  \<^verbatim>\<open>inverse_transform\<close> raises \<^verbatim>\<open>ValueError\<close> on a row of another width or
  with an entry other than 0 and 1, and returns for every row the classes of its
  non-zero columns, as a tuple in class order.
\<close>

record MultiLabelBinarizer =
  classes :: "string list"

definition fit :: "string list list \<Rightarrow> MultiLabelBinarizer" where
  "fit y = \<lparr>classes = sort (remdups (concat y))\<rparr>"

definition transform :: "MultiLabelBinarizer \<Rightarrow> string list list \<Rightarrow> int list list" where
  "transform mlb y = map (\<lambda>ls. map (\<lambda>c. if c \<in> set ls then 1 else 0) (classes mlb)) y"

definition fit_transform :: "string list list \<Rightarrow> MultiLabelBinarizer \<times> int list list" where
  "fit_transform y = (let mlb = fit y in (mlb, transform mlb y))"

definition inverse_transform ::
  "MultiLabelBinarizer \<Rightarrow> int list list \<Rightarrow> failure + string list list" where
  "inverse_transform mlb yt =
     (if \<not> list_all (\<lambda>row. length row = length (classes mlb)) yt then Inl ValueError
      else if \<not> list_all (list_all (\<lambda>v. v = 0 \<or> v = 1)) yt then Inl ValueError
      else Inr (map (\<lambda>row. map fst (filter (\<lambda>(c, v). v \<noteq> 0) (zip (classes mlb) row))) yt))"

text \<open>\<^verbatim>\<open>.astype('float32')\<close> on an integer 0/1 array.\<close>

definition astype_float32 :: "int list list \<Rightarrow> matrix" where
  "astype_float32 Y = map (map real_of_int) Y"

text \<open>
  The encoding cell:
  \<^verbatim>\<open>multilabel = MultiLabelBinarizer()\<close>
  \<^verbatim>\<open>train_labels = multilabel.fit_transform(train_labels).astype('float32')\<close>
  \<^verbatim>\<open>test_labels = multilabel.transform(test_labels).astype('float32')\<close>
\<close>

definition encode_labels ::
  "string list list \<Rightarrow> string list list \<Rightarrow> MultiLabelBinarizer \<times> matrix \<times> matrix" where
  "encode_labels train_labels test_labels =
     (let (multilabel, Y) = fit_transform train_labels;
          train_encoded = astype_float32 Y;
          test_encoded = astype_float32 (transform multilabel test_labels)
      in (multilabel, train_encoded, test_encoded))"

text \<open>
  The inference cell:
  \<^verbatim>\<open>predicted_labels = multilabel.inverse_transform(binary_predictions)[0]\<close>
\<close>

definition predicted_labels :: "MultiLabelBinarizer \<Rightarrow> matrix \<Rightarrow> failure + string list" where
  "predicted_labels multilabel logits =
     (case inverse_transform multilabel (binary_predictions logits) of
        Inl e \<Rightarrow> Inl e
      | Inr rows \<Rightarrow> (case rows of [] \<Rightarrow> Inl IndexError | r # _ \<Rightarrow> Inr r))"

subsection \<open>The dataset adapter\<close>

text \<open>
  The tokenizer is an argument of the constructor. The only call the class makes is
  \<^verbatim>\<open>self.tokenizer(text, truncation=True, padding="max_length", max_length=self.max_len,
  return_tensors='pt')\<close>, so a tokenizer is modelled as that call: a function of the text
  and of \<^verbatim>\<open>max_length\<close> that returns the two tensors of the encoding the class reads.
\<close>

record encoding =
  input_ids :: "nat list list"
  attention_mask :: "nat list list"

type_synonym tokenizer = "string \<Rightarrow> nat \<Rightarrow> encoding"

text \<open>What the library documents for \<^verbatim>\<open>truncation=True, padding="max_length"\<close> with
  \<^verbatim>\<open>return_tensors='pt'\<close>: both tensors have shape \<open>(1, max_length)\<close>. The contract
  is stated for one value \<open>n\<close> of \<^verbatim>\<open>max_length\<close>: a tokenizer that adds special tokens
  cannot keep it for the smallest values.\<close>

definition pads_to_max_length :: "tokenizer \<Rightarrow> nat \<Rightarrow> bool" where
  "pads_to_max_length tok n \<longleftrightarrow>
     (\<forall>text. shape (input_ids (tok text n)) = (1, n) \<and>
             shape (attention_mask (tok text n)) = (1, n))"

text \<open>A small tokenizer that keeps this contract (one token per character, cut to
  \<open>n\<close> tokens, padded with token 0), to run the class on; the notebook's own tokenizer is
  a pretrained wordpiece tokenizer.\<close>

definition char_tokenizer :: tokenizer where
  "char_tokenizer text n =
     (let ids = take n (map (\<lambda>c. Suc (of_char c)) text)
      in \<lparr>input_ids = [ids @ replicate (n - length ids) 0],
          attention_mask = [replicate (length ids) 1 @ replicate (n - length ids) 0]\<rparr>)"

record CaseNoteDataset =
  texts :: "string list"
  labels :: matrix
  tokenizer :: tokenizer
  max_len :: nat

text \<open>\<^verbatim>\<open>__init__(self, texts, labels, tokenizer, max_len=250)\<close>: the four fields are
  stored as given; \<open>None\<close> is a call without \<^verbatim>\<open>max_len\<close>.\<close>

definition CaseNoteDataset_init ::
  "string list \<Rightarrow> matrix \<Rightarrow> tokenizer \<Rightarrow> nat option \<Rightarrow> CaseNoteDataset" where
  "CaseNoteDataset_init texts_arg labels_arg tokenizer_arg max_len_arg =
     \<lparr>texts = texts_arg, labels = labels_arg, tokenizer = tokenizer_arg,
      max_len = (case max_len_arg of None \<Rightarrow> 250 | Some n \<Rightarrow> n)\<rparr>"

text \<open>\<^verbatim>\<open>__len__\<close>: \<^verbatim>\<open>return len(self.texts)\<close>.\<close>

definition CaseNoteDataset_len :: "CaseNoteDataset \<Rightarrow> nat" where
  "CaseNoteDataset_len self = length (texts self)"

text \<open>Python indexing of a sequence: a negative index counts from the end, an index
  outside the sequence raises \<^verbatim>\<open>IndexError\<close>.\<close>

definition py_index :: "'a list \<Rightarrow> int \<Rightarrow> failure + 'a" where
  "py_index xs i =
     (let n = int (length xs); k = (if i < 0 then n + i else i)
      in if 0 \<le> k \<and> k < n then Inr (xs ! nat k) else Inl IndexError)"

text \<open>The tensors of the returned dictionary.\<close>

datatype tensor = LongTensor "nat list" | FloatTensor "real list"

text \<open>
  \<^verbatim>\<open>__getitem__(self, idx)\<close>: the text and the label row at \<open>idx\<close>, the tokenizer call,
  and the dictionary of the two flattened tensors and the label. The texts are strings, so
  \<^verbatim>\<open>str(self.texts[idx])\<close> is the text itself.
\<close>

definition CaseNoteDataset_getitem ::
  "CaseNoteDataset \<Rightarrow> int \<Rightarrow> failure + (string \<rightharpoonup> tensor)" where
  "CaseNoteDataset_getitem self idx =
     (case py_index (texts self) idx of
        Inl e \<Rightarrow> Inl e
      | Inr text \<Rightarrow>
          (case py_index (labels self) idx of
             Inl e \<Rightarrow> Inl e
           | Inr label \<Rightarrow>
               (let enc = tokenizer self text (max_len self)
                in Inr [''input_ids'' \<mapsto> LongTensor (concat (input_ids enc)),
                        ''attention_mask'' \<mapsto> LongTensor (concat (attention_mask enc)),
                        ''labels'' \<mapsto> FloatTensor label])))"

text \<open>
  The two datasets of the notebook:
  \<^verbatim>\<open>train_dataset = CaseNoteDataset(train_texts, train_labels, tokenizer)\<close>
  \<^verbatim>\<open>test_dataset = CaseNoteDataset(test_texts, test_labels, tokenizer)\<close>
  with the encoded labels of the encoding cell.
\<close>

definition notebook_datasets ::
  "string list \<Rightarrow> string list list \<Rightarrow> string list \<Rightarrow> string list list \<Rightarrow> tokenizer
   \<Rightarrow> CaseNoteDataset \<times> CaseNoteDataset" where
  "notebook_datasets train_texts train_labels test_texts test_labels tok =
     (let (multilabel, train_encoded, test_encoded) = encode_labels train_labels test_labels
      in (CaseNoteDataset_init train_texts train_encoded tok None,
          CaseNoteDataset_init test_texts test_encoded tok None))"

subsection \<open>The metrics as the specification words them\<close>

text \<open>
  These definitions follow the wording of the specification, not the code; the theorems
  below compare them with \<^verbatim>\<open>multi_label_metrics\<close>.
\<close>

text \<open>The thresholded binary prediction of one score.\<close>

definition thresholded_prediction :: "real \<Rightarrow> real \<Rightarrow> real" where
  "thresholded_prediction t s = (if t \<le> sigmoid s then 1 else 0)"

text \<open>The (example, label) slots in which the thresholded prediction of the scores \<open>S\<close>
  differs from the ground truth \<open>y\<close>.\<close>

definition differing_slots :: "matrix \<Rightarrow> matrix \<Rightarrow> real \<Rightarrow> (nat \<times> nat) list" where
  "differing_slots S y t =
     filter (\<lambda>(i, j). thresholded_prediction t (S ! i ! j) \<noteq> y ! i ! j)
            (List.product [0..<length y] [0..<n_columns y])"

text \<open>Hamming loss: the differing slots divided by the number of slots.\<close>

definition spec_hamming_loss :: "matrix \<Rightarrow> matrix \<Rightarrow> real \<Rightarrow> real" where
  "spec_hamming_loss S y t =
     real (length (differing_slots S y t)) / real (length y * n_columns y)"

text \<open>The F1 score of one label: a ground-truth column against a prediction column, as
  the harmonic mean of precision and recall (0 where a quotient is undefined).\<close>

definition true_positives :: "real list \<Rightarrow> real list \<Rightarrow> nat" where
  "true_positives truth pred = length (filter (\<lambda>(y, p). y = 1 \<and> p = 1) (zip truth pred))"

definition false_positives :: "real list \<Rightarrow> real list \<Rightarrow> nat" where
  "false_positives truth pred = length (filter (\<lambda>(y, p). y = 0 \<and> p = 1) (zip truth pred))"

definition false_negatives :: "real list \<Rightarrow> real list \<Rightarrow> nat" where
  "false_negatives truth pred = length (filter (\<lambda>(y, p). y = 1 \<and> p = 0) (zip truth pred))"

definition precision :: "real list \<Rightarrow> real list \<Rightarrow> real" where
  "precision truth pred =
     (let tp = true_positives truth pred; fp = false_positives truth pred
      in if tp + fp = 0 then 0 else real tp / real (tp + fp))"

definition recall :: "real list \<Rightarrow> real list \<Rightarrow> real" where
  "recall truth pred =
     (let tp = true_positives truth pred; fn = false_negatives truth pred
      in if tp + fn = 0 then 0 else real tp / real (tp + fn))"

definition binary_f1 :: "real list \<Rightarrow> real list \<Rightarrow> real" where
  "binary_f1 truth pred =
     (let p = precision truth pred; r = recall truth pred
      in if p + r = 0 then 0 else 2 * p * r / (p + r))"

text \<open>Macro-averaged F1 of the thresholded predictions: the per-label F1 scores, averaged
  without weights over the labels.\<close>

definition spec_macro_f1 :: "matrix \<Rightarrow> matrix \<Rightarrow> real \<Rightarrow> real" where
  "spec_macro_f1 S y t =
     sum_list (map (\<lambda>j. binary_f1 (column y j) (map (thresholded_prediction t) (column S j)))
                   [0..<n_columns y])
     / real (n_columns y)"

text \<open>
  What the library computes instead when there is a single label column, which it reads as
  a vector of class labels: the F1 score of every class that occurs in the ground truth or
  in the predictions (the class taken as the positive one), averaged without weights over
  these classes.
\<close>

definition class_precision :: "real \<Rightarrow> real list \<Rightarrow> real list \<Rightarrow> real" where
  "class_precision c truth pred =
     (let tp = length (filter (\<lambda>(y, p). y = c \<and> p = c) (zip truth pred));
          fp = length (filter (\<lambda>(y, p). y \<noteq> c \<and> p = c) (zip truth pred))
      in if tp + fp = 0 then 0 else real tp / real (tp + fp))"

definition class_recall :: "real \<Rightarrow> real list \<Rightarrow> real list \<Rightarrow> real" where
  "class_recall c truth pred =
     (let tp = length (filter (\<lambda>(y, p). y = c \<and> p = c) (zip truth pred));
          fn = length (filter (\<lambda>(y, p). y = c \<and> p \<noteq> c) (zip truth pred))
      in if tp + fn = 0 then 0 else real tp / real (tp + fn))"

definition class_f1 :: "real \<Rightarrow> real list \<Rightarrow> real list \<Rightarrow> real" where
  "class_f1 c truth pred =
     (let p = class_precision c truth pred; r = class_recall c truth pred
      in if p + r = 0 then 0 else 2 * p * r / (p + r))"

definition class_macro_f1 :: "matrix \<Rightarrow> matrix \<Rightarrow> real \<Rightarrow> real" where
  "class_macro_f1 S y t =
     (let truth = concat y;
          pred = map (thresholded_prediction t) (concat S);
          present = sort (remdups (truth @ pred))
      in sum_list (map (\<lambda>c. class_f1 c truth pred) present) / real (length present))"

text \<open>Macro-averaged ROC-AUC as the specification words it: the per-label AUC of the
  probabilities (not of the thresholded predictions) against the ground truth, averaged
  without weights over the labels.\<close>

definition spec_macro_roc_auc :: "matrix \<Rightarrow> matrix \<Rightarrow> failure + py_float" where
  "spec_macro_roc_auc S y = roc_auc_score_macro y (probs_of S)"

subsection \<open>Facts about arrays, the sigmoid and the threshold\<close>

lemma sigmoid_pos: "0 < sigmoid s"
proof -
  have "0 < 1 + exp (- s)" by (simp add: add_pos_pos)
  then show ?thesis by (simp add: sigmoid_def)
qed

lemma sigmoid_less_one: "sigmoid s < 1"
proof -
  have "0 < exp (- s)" by simp
  then show ?thesis by (simp add: sigmoid_def field_simps add_pos_pos)
qed

lemma sigmoid_ln: "0 < x \<Longrightarrow> sigmoid (ln x) = x / (1 + x)"
proof -
  assume x: "0 < x"
  then have "exp (- ln x) = 1 / x" by (simp add: exp_minus inverse_eq_divide)
  then have "sigmoid (ln x) = 1 / (1 + 1 / x)" by (simp add: sigmoid_def)
  also have "\<dots> = x / (1 + x)" using x by (simp add: field_simps)
  finally show ?thesis .
qed

lemma sigmoid_zero: "sigmoid 0 = 1 / 2"
  by (simp add: sigmoid_def)

lemma sigmoid_strict_mono: "a < b \<Longrightarrow> sigmoid a < sigmoid b"
proof -
  assume "a < b"
  then have "exp (- b) < exp (- a)" by simp
  then have "1 + exp (- b) < 1 + exp (- a)" by simp
  moreover have "0 < 1 + exp (- b)" by (simp add: add_pos_pos)
  ultimately show ?thesis by (simp add: sigmoid_def frac_less2)
qed

lemma length_assign_ones: "length (assign_ones Y ps) = length Y"
  by (induction Y ps rule: assign_ones.induct) simp_all

lemma length_row_assign_ones: "length (assign_ones Y ps ! i) = length (Y ! i)"
proof (induction Y ps rule: assign_ones.induct)
  case (1 Y)
  then show ?case by simp
next
  case (2 Y k j ps)
  have "length (Y[k := (Y ! k)[j := 1]] ! i) = length (Y ! i)"
    by (cases "k < length Y") (simp_all add: nth_list_update list_update_beyond)
  with 2 show ?case by simp
qed

lemma assign_ones_entry:
  "i < length Y \<Longrightarrow> j < length (Y ! i) \<Longrightarrow>
   assign_ones Y ps ! i ! j = (if (i, j) \<in> set ps then 1 else Y ! i ! j)"
proof (induction Y ps rule: assign_ones.induct)
  case (1 Y)
  then show ?case by simp
next
  case (2 Y k l ps)
  let ?Y' = "Y[k := (Y ! k)[l := 1]]"
  have len: "i < length ?Y'" using 2 by simp
  have row: "length (?Y' ! i) = length (Y ! i)"
    by (cases "k < length Y") (simp_all add: nth_list_update list_update_beyond)
  have entry: "?Y' ! i ! j = (if (i, j) = (k, l) then 1 else Y ! i ! j)"
    using 2(2,3) by (cases "i = k") (simp_all add: nth_list_update)
  have "assign_ones ?Y' ps ! i ! j = (if (i, j) \<in> set ps then 1 else ?Y' ! i ! j)"
    using 2(1) [OF len] 2(3) row by simp
  then show ?case using entry by auto
qed

lemma np_where_ge_set:
  "(i, j) \<in> set (np_where_ge P t) \<longleftrightarrow> i < length P \<and> j < length (P ! i) \<and> t \<le> P ! i ! j"
  by (auto simp: np_where_ge_def)

lemma rectangular_row: "rectangular M \<Longrightarrow> i < length M \<Longrightarrow> length (M ! i) = n_columns M"
  by (simp add: rectangular_def list_all_length)

lemma y_pred_of_map:
  assumes "rectangular P"
  shows "y_pred_of P t = map (map (\<lambda>p. if t \<le> p then 1 else 0)) P"
proof (rule nth_equalityI)
  show "length (y_pred_of P t) = length (map (map (\<lambda>p. if t \<le> p then 1 else 0)) P)"
    by (simp add: y_pred_of_def length_assign_ones np_zeros_def shape_def)
next
  fix i assume "i < length (y_pred_of P t)"
  then have i: "i < length P"
    by (simp add: y_pred_of_def length_assign_ones np_zeros_def shape_def)
  have zi: "np_zeros (shape P) ! i = replicate (n_columns P) 0"
    using i by (simp add: np_zeros_def shape_def)
  have rowlen: "length (P ! i) = n_columns P"
    using assms i by (rule rectangular_row)
  have "y_pred_of P t ! i = map (\<lambda>p. if t \<le> p then 1 else 0) (P ! i)"
  proof (rule nth_equalityI)
    show "length (y_pred_of P t ! i) = length (map (\<lambda>p. if t \<le> p then 1 else 0) (P ! i))"
      by (simp add: y_pred_of_def length_row_assign_ones zi rowlen)
  next
    fix j assume "j < length (y_pred_of P t ! i)"
    then have j: "j < n_columns P"
      by (simp add: y_pred_of_def length_row_assign_ones zi)
    have "y_pred_of P t ! i ! j
          = (if (i, j) \<in> set (np_where_ge P t) then 1 else np_zeros (shape P) ! i ! j)"
      unfolding y_pred_of_def
      by (rule assign_ones_entry) (simp_all add: np_zeros_def shape_def i j)
    also have "\<dots> = (if t \<le> P ! i ! j then 1 else 0)"
      using i j rowlen by (simp add: np_where_ge_set zi)
    finally show "y_pred_of P t ! i ! j = map (\<lambda>p. if t \<le> p then 1 else 0) (P ! i) ! j"
      using j rowlen by simp
  qed
  then show "y_pred_of P t ! i = map (map (\<lambda>p. if t \<le> p then 1 else 0)) P ! i"
    using i by simp
qed

lemma rectangular_probs_of: "rectangular M \<Longrightarrow> rectangular (probs_of M)"
  by (cases M) (simp_all add: rectangular_def probs_of_def n_columns_def list_all_iff)

subsection \<open>A worked example\<close>

text \<open>
  Two examples, two labels. The scores are chosen so that the probabilities are
  \<open>3/4, 1/10\<close> and \<open>1/2, 3/4\<close>; the ground truth is \<open>[[1, 0], [0, 1]]\<close>.
\<close>

lemma example_probs:
  "probs_of [[ln 3, ln (1 / 9)], [0, ln 3]] = [[3 / 4, 1 / 10], [1 / 2, 3 / 4]]"
  by (simp add: probs_of_def sigmoid_ln sigmoid_zero)

lemma example_y_pred:
  "y_pred_of [[3 / 4, 1 / 10], [1 / 2, 3 / 4]] (3 / 10) = [[1, 0], [1, 1]]"
  by code_simp

lemma example_f1: "f1_score_macro [[1, 0], [0, 1]] [[1, 0], [1, 1]] = Inr (5 / 6)"
  by code_simp

lemma example_roc_auc:
  "roc_auc_score_macro [[1, 0], [0, 1]] [[1, 0], [1, 1]] = Inr (Float (3 / 4))"
  by code_simp

lemma example_roc_auc_probs:
  "roc_auc_score_macro [[1, 0], [0, 1]] [[3 / 4, 1 / 10], [1 / 2, 3 / 4]] = Inr (Float 1)"
  by code_simp

lemma example_hamming: "hamming_loss [[1, 0], [0, 1]] [[1, 0], [1, 1]] = Inr (1 / 4)"
  by code_simp

lemma example_metrics:
  "multi_label_metrics [[ln 3, ln (1 / 9)], [0, ln 3]] [[1, 0], [0, 1]] None
   = Inr [''roc_auc'' \<mapsto> Float (3 / 4), ''hamming_loss'' \<mapsto> Float (1 / 4),
          ''f1'' \<mapsto> Float (5 / 6)]"
  by (simp add: multi_label_metrics_def threshold_of_def example_probs example_y_pred
      example_f1 example_roc_auc example_hamming)

text \<open>
  A single label column: two examples with score 2, ground truth \<open>[[1], [0]]\<close>. Both
  probabilities are above one half, so both predictions are 1.
\<close>

lemma sigmoid_two: "1 / 2 < sigmoid 2"
  using sigmoid_strict_mono [of 0 2] by (simp add: sigmoid_zero)

lemma example_one_column_y_pred:
  "y_pred_of (probs_of [[2], [2]]) (3 / 10) = [[1], [1]]"
proof -
  have "rectangular (probs_of [[2], [2]])"
    by (rule rectangular_probs_of) (simp add: rectangular_def n_columns_def)
  then show ?thesis
    using sigmoid_two by (simp add: y_pred_of_map probs_of_def)
qed

lemma example_one_column_f1: "f1_score_macro [[1], [0]] [[1], [1]] = Inr (1 / 3)"
  by code_simp

lemma example_one_column_roc_auc:
  "roc_auc_score_macro [[1], [0]] [[1], [1]] = Inr (Float (1 / 2))"
  by code_simp

lemma example_one_column_hamming: "hamming_loss [[1], [0]] [[1], [1]] = Inr (1 / 2)"
  by code_simp

lemma example_one_column_metrics:
  "multi_label_metrics [[2], [2]] [[1], [0]] None
   = Inr [''roc_auc'' \<mapsto> Float (1 / 2), ''hamming_loss'' \<mapsto> Float (1 / 2),
          ''f1'' \<mapsto> Float (1 / 3)]"
  by (simp add: multi_label_metrics_def threshold_of_def example_one_column_y_pred
      example_one_column_f1 example_one_column_roc_auc example_one_column_hamming)

text \<open>A label column without positives: the AUC of that label is undefined, and so is the
  macro average.\<close>

lemma example_single_class_metrics:
  "multi_label_metrics [[ln 3, ln (1 / 9)], [0, ln (1 / 9)]] [[1, 0], [0, 0]] None
   = Inr [''roc_auc'' \<mapsto> NaN, ''hamming_loss'' \<mapsto> Float (1 / 4), ''f1'' \<mapsto> Float (1 / 3)]"
proof -
  have p: "probs_of [[ln 3, ln (1 / 9)], [0, ln (1 / 9)]] = [[3 / 4, 1 / 10], [1 / 2, 1 / 10]]"
    by (simp add: probs_of_def sigmoid_ln sigmoid_zero)
  have y: "y_pred_of [[3 / 4, 1 / 10], [1 / 2, 1 / 10]] (3 / 10) = [[1, 0], [1, 0]]"
    by code_simp
  have f: "f1_score_macro [[1, 0], [0, 0]] [[1, 0], [1, 0]] = Inr (1 / 3)"
    by code_simp
  have r: "roc_auc_score_macro [[1, 0], [0, 0]] [[1, 0], [1, 0]] = Inr NaN"
    by code_simp
  have h: "hamming_loss [[1, 0], [0, 0]] [[1, 0], [1, 0]] = Inr (1 / 4)"
    by code_simp
  show ?thesis
    by (simp add: multi_label_metrics_def threshold_of_def p y f r h)
qed

subsection \<open>The probabilities by index\<close>

lemma probs_of_nth:
  "i < length S \<Longrightarrow> j < length (S ! i) \<Longrightarrow> probs_of S ! i ! j = sigmoid (S ! i ! j)"
  by (simp add: probs_of_def)

subsection \<open>The threshold step\<close>

lemma y_pred_of_nth:
  assumes "rectangular P" "i < length P" "j < n_columns P"
  shows "y_pred_of P t ! i ! j = (if t \<le> P ! i ! j then 1 else 0)"
  using assms by (simp add: y_pred_of_map rectangular_row)


lemma length_probs_of: "length (probs_of S) = length S"
  by (simp add: probs_of_def)

lemma n_columns_probs_of: "n_columns (probs_of S) = n_columns S"
  by (cases S) (simp_all add: n_columns_def probs_of_def)



lemma y_pred_of_scores:
  assumes "rectangular S"
  shows "y_pred_of (probs_of S) t = map (map (\<lambda>s. if t \<le> sigmoid s then 1 else 0)) S"
  using y_pred_of_map [OF rectangular_probs_of [OF assms], of t]
  by (simp add: probs_of_def comp_def)

text \<open>
  Claim C2. The binary prediction array compares every probability with a fixed
  threshold. In the evaluation path the threshold is 0.3: it is the default of
  \<^verbatim>\<open>multi_label_metrics\<close>, whose result without a threshold argument is the three
  metrics of the ground truth against the array of the comparisons
  \<open>0.3 \<le> sigmoid score\<close>, and \<^verbatim>\<open>compute_metrics\<close> calls the function without a
  threshold, so its result is that one too. In the inference cell the threshold is 0.1:
  the binary predictions are the comparisons \<open>0.1 < sigmoid score\<close>, and these are what
  the predicted labels are read from.
\<close>

theorem fixed_thresholds:
  "threshold_of None = 3 / 10 \<and>
   (rectangular S \<and> Y = map (map (\<lambda>s. if 3 / 10 \<le> sigmoid s then 1 else 0)) S \<longrightarrow>
      y_pred_of (probs_of S) (threshold_of None) = Y \<and>
      multi_label_metrics S y None
        = (case f1_score_macro y Y of
             Inl e \<Rightarrow> Inl e
           | Inr f1 \<Rightarrow>
               (case roc_auc_score_macro y Y of
                  Inl e \<Rightarrow> Inl e
                | Inr roc_auc \<Rightarrow>
                    (case hamming_loss y Y of
                       Inl e \<Rightarrow> Inl e
                     | Inr hamming \<Rightarrow>
                         Inr [''roc_auc'' \<mapsto> roc_auc, ''hamming_loss'' \<mapsto> Float hamming,
                              ''f1'' \<mapsto> Float f1]))) \<and>
      compute_metrics \<lparr>predictions = Array S, label_ids = y\<rparr> = multi_label_metrics S y None) \<and>
   multi_label_metrics S y None = multi_label_metrics S y (Some (3 / 10)) \<and>
   compute_metrics \<lparr>predictions = Array S, label_ids = y\<rparr> = multi_label_metrics S y (Some (3 / 10)) \<and>
   binary_predictions L = map (map (\<lambda>s. if 1 / 10 < sigmoid s then 1 else 0)) L \<and>
   predicted_labels mlb L
     = (case inverse_transform mlb (map (map (\<lambda>s. if 1 / 10 < sigmoid s then 1 else 0)) L) of
          Inl e \<Rightarrow> Inl e
        | Inr rows \<Rightarrow> (case rows of [] \<Rightarrow> Inl IndexError | r # _ \<Rightarrow> Inr r))"
proof -
  have a: "threshold_of None = 3 / 10" by (simp add: threshold_of_def)
  have c: "multi_label_metrics S y None = multi_label_metrics S y (Some (3 / 10))"
    by (simp add: multi_label_metrics_def threshold_of_def)
  have d: "compute_metrics \<lparr>predictions = Array S, label_ids = y\<rparr> = multi_label_metrics S y None"
    by (simp add: compute_metrics_def preds_of_def)
  have b: "y_pred_of (probs_of S) (threshold_of None) = Y \<and>
      multi_label_metrics S y None
        = (case f1_score_macro y Y of
             Inl e \<Rightarrow> Inl e
           | Inr f1 \<Rightarrow>
               (case roc_auc_score_macro y Y of
                  Inl e \<Rightarrow> Inl e
                | Inr roc_auc \<Rightarrow>
                    (case hamming_loss y Y of
                       Inl e \<Rightarrow> Inl e
                     | Inr hamming \<Rightarrow>
                         Inr [''roc_auc'' \<mapsto> roc_auc, ''hamming_loss'' \<mapsto> Float hamming,
                              ''f1'' \<mapsto> Float f1]))) \<and>
      compute_metrics \<lparr>predictions = Array S, label_ids = y\<rparr> = multi_label_metrics S y None"
    if "rectangular S \<and> Y = map (map (\<lambda>s. if 3 / 10 \<le> sigmoid s then 1 else 0)) S"
  proof -
    have Y: "y_pred_of (probs_of S) (threshold_of None) = Y"
      using that y_pred_of_scores [of S "3 / 10"] by (simp add: a)
    have "multi_label_metrics S y None
        = (case f1_score_macro y Y of
             Inl e \<Rightarrow> Inl e
           | Inr f1 \<Rightarrow>
               (case roc_auc_score_macro y Y of
                  Inl e \<Rightarrow> Inl e
                | Inr roc_auc \<Rightarrow>
                    (case hamming_loss y Y of
                       Inl e \<Rightarrow> Inl e
                     | Inr hamming \<Rightarrow>
                         Inr [''roc_auc'' \<mapsto> roc_auc, ''hamming_loss'' \<mapsto> Float hamming,
                              ''f1'' \<mapsto> Float f1])))"
      unfolding multi_label_metrics_def Let_def Y by (rule refl)
    then show ?thesis using d Y by (simp only: simp_thms)
  qed
  have e: "binary_predictions L = map (map (\<lambda>s. if 1 / 10 < sigmoid s then 1 else 0)) L"
    by (simp add: binary_predictions_def predicted_probabilities_def comp_def)
  have f: "predicted_labels mlb L
     = (case inverse_transform mlb (map (map (\<lambda>s. if 1 / 10 < sigmoid s then 1 else 0)) L) of
          Inl e \<Rightarrow> Inl e
        | Inr rows \<Rightarrow> (case rows of [] \<Rightarrow> Inl IndexError | r # _ \<Rightarrow> Inr r))"
    by (simp only: predicted_labels_def e)
  have d': "compute_metrics \<lparr>predictions = Array S, label_ids = y\<rparr>
              = multi_label_metrics S y (Some (3 / 10))"
    using c d by (rule trans [rotated])
  from a b c d' e f show ?thesis by blast
qed

text \<open>The scores of the witness have the probabilities \<open>3/4, 1/5\<close> and \<open>1/2, 3/4\<close>: the
  probability \<open>1/5\<close> is a 0 under the threshold 0.3 and a 1 under 0.1.\<close>

theorem fixed_thresholds_witness:
  "multi_label_metrics [[ln 3, ln (1 / 4)], [0, ln 3]] [[1, 0], [0, 1]] None
     = Inr [''roc_auc'' \<mapsto> Float (3 / 4), ''hamming_loss'' \<mapsto> Float (1 / 4),
            ''f1'' \<mapsto> Float (5 / 6)] \<and>
   compute_metrics \<lparr>predictions = Array [[ln 3, ln (1 / 4)], [0, ln 3]],
                    label_ids = [[1, 0], [0, 1]]\<rparr>
     = Inr [''roc_auc'' \<mapsto> Float (3 / 4), ''hamming_loss'' \<mapsto> Float (1 / 4),
            ''f1'' \<mapsto> Float (5 / 6)] \<and>
   multi_label_metrics [[ln 3, ln (1 / 4)], [0, ln 3]] [[1, 0], [0, 1]] (Some (1 / 10))
     = Inr [''roc_auc'' \<mapsto> Float (1 / 2), ''hamming_loss'' \<mapsto> Float (1 / 2),
            ''f1'' \<mapsto> Float (2 / 3)] \<and>
   y_pred_of (probs_of [[ln 3, ln (1 / 4)], [0, ln 3]]) (threshold_of None) = [[1, 0], [1, 1]] \<and>
   binary_predictions [[ln 3, ln (1 / 4)], [0, ln 3]] = [[1, 1], [1, 1]]"
proof -
  have r: "rectangular [[ln 3, ln (1 / 4)], [0, ln 3 :: real]]"
    by (simp add: rectangular_def n_columns_def)
  have Y: "[[1, 0], [1, 1 :: real]]
           = map (map (\<lambda>s. if 3 / 10 \<le> sigmoid s then 1 else 0)) [[ln 3, ln (1 / 4)], [0, ln 3]]"
    by (simp add: sigmoid_ln sigmoid_zero)
  have t: "y_pred_of (probs_of [[ln 3, ln (1 / 4)], [0, ln 3]]) (1 / 10) = [[1, 1], [1, 1]]"
    by (simp add: y_pred_of_scores [OF r] sigmoid_ln sigmoid_zero)
  have f: "f1_score_macro [[1, 0], [0, 1]] [[1, 1], [1, 1]] = Inr (2 / 3)"
    by code_simp
  have a: "roc_auc_score_macro [[1, 0], [0, 1]] [[1, 1], [1, 1]] = Inr (Float (1 / 2))"
    by code_simp
  have h: "hamming_loss [[1, 0], [0, 1]] [[1, 1], [1, 1]] = Inr (1 / 2)"
    by code_simp
  have low: "multi_label_metrics [[ln 3, ln (1 / 4)], [0, ln 3]] [[1, 0], [0, 1]] (Some (1 / 10))
     = Inr [''roc_auc'' \<mapsto> Float (1 / 2), ''hamming_loss'' \<mapsto> Float (1 / 2),
            ''f1'' \<mapsto> Float (2 / 3)]"
    by (simp add: multi_label_metrics_def threshold_of_def t f a h)
  have b: "binary_predictions [[ln 3, ln (1 / 4)], [0, ln 3]] = [[1, 1], [1, 1]]"
    by (simp add: binary_predictions_def predicted_probabilities_def sigmoid_ln sigmoid_zero)
  show ?thesis
    using fixed_thresholds [of "[[ln 3, ln (1 / 4)], [0, ln 3]]" "[[1, 0], [1, 1]]"
        "[[1, 0], [0, 1]]"] r Y low b
    by (simp add: example_f1 example_roc_auc example_hamming)
qed

subsection \<open>\<^verbatim>\<open>compute_metrics\<close>\<close>

lemma multi_label_metrics_dom:
  "multi_label_metrics S y thr = Inr m \<Longrightarrow> dom m = {''roc_auc'', ''hamming_loss'', ''f1''}"
  by (auto simp: multi_label_metrics_def Let_def split: sum.splits if_splits)

text \<open>
  Claim C10. \<^verbatim>\<open>compute_metrics\<close> returns \<^verbatim>\<open>multi_label_metrics\<close> with the default
  threshold 0.3, applied to \<^verbatim>\<open>p.label_ids\<close> and to the first element of
  \<^verbatim>\<open>p.predictions\<close> when that is a tuple, to \<^verbatim>\<open>p.predictions\<close> itself otherwise (an
  empty tuple has no first element: \<^verbatim>\<open>IndexError\<close>). A returned mapping has exactly
  the keys \<^verbatim>\<open>roc_auc\<close>, \<^verbatim>\<open>hamming_loss\<close> and \<^verbatim>\<open>f1\<close>.
\<close>

theorem compute_metrics_delegates:
  "compute_metrics \<lparr>predictions = Tuple (a # rest), label_ids = y\<rparr>
     = multi_label_metrics a y (Some (3 / 10)) \<and>
   compute_metrics \<lparr>predictions = Array a, label_ids = y\<rparr>
     = multi_label_metrics a y (Some (3 / 10)) \<and>
   compute_metrics \<lparr>predictions = Tuple [], label_ids = y\<rparr> = Inl IndexError \<and>
   (compute_metrics p = Inr m \<longrightarrow> dom m = {''roc_auc'', ''hamming_loss'', ''f1''})"
proof -
  have thr: "multi_label_metrics a y None = multi_label_metrics a y (Some (3 / 10))"
    by (simp add: multi_label_metrics_def threshold_of_def)
  have t: "compute_metrics \<lparr>predictions = Tuple (a # rest), label_ids = y\<rparr>
             = multi_label_metrics a y (Some (3 / 10))"
    by (simp add: compute_metrics_def preds_of_def thr)
  have ar: "compute_metrics \<lparr>predictions = Array a, label_ids = y\<rparr>
             = multi_label_metrics a y (Some (3 / 10))"
    by (simp add: compute_metrics_def preds_of_def thr)
  have e: "compute_metrics \<lparr>predictions = Tuple [], label_ids = y\<rparr> = Inl IndexError"
    by (simp add: compute_metrics_def preds_of_def)
  have k: "dom m = {''roc_auc'', ''hamming_loss'', ''f1''}" if "compute_metrics p = Inr m"
    using that multi_label_metrics_dom
    by (auto simp: compute_metrics_def split: sum.splits)
  from t ar e k show ?thesis by blast
qed

theorem compute_metrics_delegates_witness:
  "compute_metrics \<lparr>predictions = Tuple [[[ln 3, ln (1 / 9)], [0, ln 3]]],
                    label_ids = [[1, 0], [0, 1]]\<rparr>
     = Inr [''roc_auc'' \<mapsto> Float (3 / 4), ''hamming_loss'' \<mapsto> Float (1 / 4),
            ''f1'' \<mapsto> Float (5 / 6)] \<and>
   dom [''roc_auc'' \<mapsto> Float (3 / 4), ''hamming_loss'' \<mapsto> Float (1 / 4),
        ''f1'' \<mapsto> Float (5 / 6)]
     = {''roc_auc'', ''hamming_loss'', ''f1''}"
proof -
  have c: "compute_metrics \<lparr>predictions = Tuple [[[ln 3, ln (1 / 9)], [0, ln 3]]],
                            label_ids = [[1, 0], [0, 1]]\<rparr>
     = Inr [''roc_auc'' \<mapsto> Float (3 / 4), ''hamming_loss'' \<mapsto> Float (1 / 4),
            ''f1'' \<mapsto> Float (5 / 6)]"
    by (simp add: compute_metrics_def preds_of_def example_metrics)
  show ?thesis
    using compute_metrics_delegates [of "[[ln 3, ln (1 / 9)], [0, ln 3]]" "[]" "[[1, 0], [0, 1]]"
        "\<lparr>predictions = Tuple [[[ln 3, ln (1 / 9)], [0, ln 3]]], label_ids = [[1, 0], [0, 1]]\<rparr>"
        "[''roc_auc'' \<mapsto> Float (3 / 4), ''hamming_loss'' \<mapsto> Float (1 / 4),
          ''f1'' \<mapsto> Float (5 / 6)]"] c
    by simp
qed

subsection \<open>Arrays by index\<close>

lemma length_filter_product:
  "length (filter Q (List.product xs ys))
   = sum_list (map (\<lambda>x. length (filter (\<lambda>y. Q (x, y)) ys)) xs)"
  by (induction xs) (simp_all add: filter_map comp_def)

lemma count_nonzero_rows:
  "count_nonzero X = sum_list (map (\<lambda>r. length (filter (\<lambda>x. x \<noteq> 0) r)) X)"
  unfolding count_nonzero_def by (induction X) simp_all

lemma zip_map_index:
  assumes "length a = n" and "length b = n"
  shows "map (\<lambda>(x, y). f x y) (zip a b) = map (\<lambda>j. f (a ! j) (b ! j)) [0..<n]"
  using assms by (intro nth_equalityI) simp_all

lemma elementwise_index:
  assumes "rectangular A" and "rectangular B"
    and "length A = length B" and "n_columns A = n_columns B"
  shows "elementwise f A B
         = map (\<lambda>i. map (\<lambda>j. f (A ! i ! j) (B ! i ! j)) [0..<n_columns A]) [0..<length A]"
proof (rule nth_equalityI)
  show "length (elementwise f A B)
        = length (map (\<lambda>i. map (\<lambda>j. f (A ! i ! j) (B ! i ! j)) [0..<n_columns A]) [0..<length A])"
    using assms(3) by (simp add: elementwise_def)
next
  fix i assume "i < length (elementwise f A B)"
  then have i: "i < length A" "i < length B" using assms(3) by (simp_all add: elementwise_def)
  have la: "length (A ! i) = n_columns A" using assms(1) i(1) by (rule rectangular_row)
  have lb: "length (B ! i) = n_columns A" using rectangular_row [OF assms(2) i(2)] assms(4) by simp
  have "elementwise f A B ! i = map (\<lambda>(x, y). f x y) (zip (A ! i) (B ! i))"
    using i by (simp add: elementwise_def)
  also have "\<dots> = map (\<lambda>j. f (A ! i ! j) (B ! i ! j)) [0..<n_columns A]"
    using la lb by (rule zip_map_index)
  finally show "elementwise f A B ! i
        = map (\<lambda>i. map (\<lambda>j. f (A ! i ! j) (B ! i ! j)) [0..<n_columns A]) [0..<length A] ! i"
    using i(1) by simp
qed

lemma count_nonzero_difference:
  assumes "rectangular A" and "rectangular B"
    and "length A = length B" and "n_columns A = n_columns B"
  shows "count_nonzero (elementwise (-) A B)
         = length (filter (\<lambda>(i, j). B ! i ! j \<noteq> A ! i ! j)
                          (List.product [0..<length A] [0..<n_columns A]))"
proof -
  have "count_nonzero (elementwise (-) A B)
        = sum_list (map (\<lambda>i. length (filter (\<lambda>j. A ! i ! j - B ! i ! j \<noteq> 0) [0..<n_columns A]))
                        [0..<length A])"
    by (simp add: count_nonzero_rows elementwise_index [OF assms] comp_def filter_map)
  also have "\<dots> = sum_list (map (\<lambda>i. length (filter (\<lambda>j. B ! i ! j \<noteq> A ! i ! j) [0..<n_columns A]))
                        [0..<length A])"
  proof -
    have "(A ! i ! j - B ! i ! j \<noteq> 0) = (B ! i ! j \<noteq> A ! i ! j)" for i j by auto
    then show ?thesis by simp
  qed
  finally show ?thesis by (simp add: length_filter_product)
qed

lemma zip_map_same: "zip (map f xs) (map g xs) = map (\<lambda>x. (f x, g x)) xs"
  by (induction xs) simp_all

lemma product_singleton: "List.product xs [y] = map (\<lambda>x. (x, y)) xs"
  by (induction xs) simp_all

lemma concat_one_column:
  assumes "rectangular M" and "n_columns M = 1"
  shows "concat M = map (\<lambda>i. M ! i ! 0) [0..<length M]"
proof -
  have "M = map (\<lambda>i. [M ! i ! 0]) [0..<length M]"
  proof (rule nth_equalityI)
    show "length M = length (map (\<lambda>i. [M ! i ! 0]) [0..<length M])" by simp
  next
    fix i assume i: "i < length M"
    then have "length (M ! i) = 1" using assms by (simp add: rectangular_row)
    then have "M ! i = [M ! i ! 0]" by (cases "M ! i") simp_all
    then show "M ! i = map (\<lambda>i. [M ! i ! 0]) [0..<length M] ! i" using i by simp
  qed
  then have "concat M = concat (map (\<lambda>i. [M ! i ! 0]) [0..<length M])" by simp
  then show ?thesis by (simp only: concat_map_singleton)
qed

lemma one_column_mismatches:
  assumes "rectangular A" and "rectangular B"
    and "length A = length B" and "n_columns A = 1" and "n_columns B = 1"
  shows "length (filter (\<lambda>(a, b). a \<noteq> b) (zip (column_or_1d A) (column_or_1d B)))
         = length (filter (\<lambda>(i, j). B ! i ! j \<noteq> A ! i ! j)
                          (List.product [0..<length A] [0..<n_columns A]))"
    and "length (column_or_1d A) = length A * n_columns A"
proof -
  have A: "column_or_1d A = map (\<lambda>i. A ! i ! 0) [0..<length A]"
    unfolding column_or_1d_def using assms(1,4) by (rule concat_one_column)
  have B: "column_or_1d B = map (\<lambda>i. B ! i ! 0) [0..<length A]"
    unfolding column_or_1d_def using concat_one_column [OF assms(2,5)] assms(3) by simp
  show "length (column_or_1d A) = length A * n_columns A"
    by (simp add: A assms(4))
  have "length (filter (\<lambda>(a, b). a \<noteq> b) (zip (column_or_1d A) (column_or_1d B)))
        = length (filter (\<lambda>i. A ! i ! 0 \<noteq> B ! i ! 0) [0..<length A])"
    by (simp add: A B zip_map_same filter_map comp_def)
  also have "\<dots> = length (filter (\<lambda>i. B ! i ! 0 \<noteq> A ! i ! 0) [0..<length A])"
  proof -
    have "(A ! i ! 0 \<noteq> B ! i ! 0) = (B ! i ! 0 \<noteq> A ! i ! 0)" for i by auto
    then show ?thesis by simp
  qed
  also have "\<dots> = length (filter (\<lambda>(i, j). B ! i ! j \<noteq> A ! i ! j)
                          (List.product [0..<length A] [0..<n_columns A]))"
    by (simp add: assms(4) product_singleton filter_map comp_def)
  finally show "length (filter (\<lambda>(a, b). a \<noteq> b) (zip (column_or_1d A) (column_or_1d B)))
         = length (filter (\<lambda>(i, j). B ! i ! j \<noteq> A ! i ! j)
                          (List.product [0..<length A] [0..<n_columns A]))" .
qed

subsection \<open>When \<^verbatim>\<open>multi_label_metrics\<close> returns\<close>

lemma shape_y_pred_of:
  "length (y_pred_of P t) = length P"
  "0 < length P \<Longrightarrow> n_columns (y_pred_of P t) = n_columns P"
proof -
  show l: "length (y_pred_of P t) = length P"
    by (simp add: y_pred_of_def length_assign_ones np_zeros_def shape_def)
  assume p: "0 < length P"
  then have "y_pred_of P t \<noteq> []" using l by auto
  then have "n_columns (y_pred_of P t) = length (y_pred_of P t ! 0)"
    by (cases "y_pred_of P t") (simp_all add: n_columns_def)
  also have "\<dots> = length (np_zeros (shape P) ! 0)"
    by (simp add: y_pred_of_def length_row_assign_ones)
  also have "\<dots> = n_columns P" using p by (simp add: np_zeros_def shape_def)
  finally show "n_columns (y_pred_of P t) = n_columns P" .
qed

lemma rectangular_y_pred_of: "rectangular (y_pred_of P t)"
proof -
  have "length (y_pred_of P t ! i) = n_columns (y_pred_of P t)" if "i < length (y_pred_of P t)" for i
  proof -
    have i: "i < length P" using that by (simp add: shape_y_pred_of(1))
    then have "length (y_pred_of P t ! i) = n_columns P"
      by (simp add: y_pred_of_def length_row_assign_ones np_zeros_def shape_def)
    moreover have "0 < length P" using i by auto
    ultimately show ?thesis using shape_y_pred_of(2) [of P t] by simp
  qed
  then show ?thesis by (simp add: rectangular_def list_all_length)
qed

lemma binary_y_pred_of:
  assumes "rectangular P"
  shows "list_all (list_all (\<lambda>y. y = 0 \<or> y = 1)) (y_pred_of P t)"
  by (auto simp: y_pred_of_map [OF assms] list_all_iff)

lemma type_of_target_SomeD:
  assumes "type_of_target Y = Some ty"
  shows "rectangular Y" and "1 \<le> length Y"
    and "list_all (list_all (\<lambda>y. y = 0 \<or> y = 1)) Y"
    and "ty = Binary \<longleftrightarrow> n_columns Y = 1"
    and "ty = MultilabelIndicator \<longleftrightarrow> 2 \<le> n_columns Y"
  using assms by (auto simp: type_of_target_def split: if_splits)

lemma type_of_target_y_pred_of:
  assumes "rectangular P" and "1 \<le> length P"
  shows "type_of_target (y_pred_of P t)
         = (if n_columns P = 1 then Some Binary
            else if 2 \<le> n_columns P then Some MultilabelIndicator else None)"
proof -
  have "0 < length P" using assms(2) by auto
  then have "n_columns (y_pred_of P t) = n_columns P" by (rule shape_y_pred_of(2))
  then show ?thesis
    using assms shape_y_pred_of(1) [of P t] rectangular_y_pred_of [of P t]
      binary_y_pred_of [of P t]
    by (simp add: type_of_target_def)
qed

text \<open>What a successful call tells about its arguments.\<close>

lemma multi_label_metrics_InrD:
  assumes "multi_label_metrics S y thr = Inr m"
  shows "\<exists>ty. check_targets y (y_pred_of (probs_of S) (threshold_of thr)) = Inr ty"
    and "\<exists>f. f1_score_macro y (y_pred_of (probs_of S) (threshold_of thr)) = Inr f
             \<and> m ''f1'' = Some (Float f)"
    and "\<exists>h. hamming_loss y (y_pred_of (probs_of S) (threshold_of thr)) = Inr h
             \<and> m ''hamming_loss'' = Some (Float h)"
    and "\<exists>r. roc_auc_score_macro y (y_pred_of (probs_of S) (threshold_of thr)) = Inr r
             \<and> m ''roc_auc'' = Some r"
  using assms
  by (auto simp: multi_label_metrics_def Let_def hamming_loss_def split: sum.splits)

lemma check_targets_InrD:
  assumes "check_targets A B = Inr ty"
  shows "type_of_target A = Some ty" and "type_of_target B = Some ty"
    and "length A = length B" and "n_columns A = n_columns B"
  using assms by (auto simp: check_targets_def split: if_splits option.splits)

lemma collect_all_Inr:
  "(\<And>r. r \<in> set rs \<Longrightarrow> \<exists>x. r = Inr x) \<Longrightarrow> \<exists>xs. collect rs = Inr xs"
proof (induction rs)
  case Nil
  then show ?case by simp
next
  case (Cons r rs)
  then obtain x where "r = Inr x" by (meson list.set_intros(1))
  moreover obtain xs where "collect rs = Inr xs" using Cons by (meson list.set_intros(2))
  ultimately show ?case by simp
qed

text \<open>The shape of the scores, read off a successful call.\<close>

lemma multi_label_metrics_shape:
  assumes "multi_label_metrics S y thr = Inr m"
  shows "length S = length y" and "n_columns S = n_columns y"
    and "\<exists>ty. type_of_target y = Some ty"
proof -
  let ?Y = "y_pred_of (probs_of S) (threshold_of thr)"
  obtain ty where ct: "check_targets y ?Y = Inr ty"
    using multi_label_metrics_InrD(1) [OF assms] by blast
  have ty: "type_of_target y = Some ty"
    and len: "length y = length ?Y" and cols: "n_columns y = n_columns ?Y"
    using check_targets_InrD [OF ct] by simp_all
  show "length S = length y"
    using len by (simp add: shape_y_pred_of(1) length_probs_of)
  have "0 < length y" using type_of_target_SomeD(2) [OF ty] by auto
  then have "0 < length (probs_of S)" using len by (simp add: shape_y_pred_of(1))
  then show "n_columns S = n_columns y"
    using cols by (simp add: shape_y_pred_of(2) n_columns_probs_of)
  show "\<exists>ty. type_of_target y = Some ty" using ty by blast
qed

text \<open>Scores and a 0/1 ground truth of one shape, with at least one example and one
  label: all three metrics are computed and the function returns.\<close>

lemma multi_label_metrics_returns:
  assumes "rectangular S" and "shape S = shape y" and "type_of_target y = Some ty"
  shows "\<exists>m. multi_label_metrics S y thr = Inr m"
proof -
  let ?P = "probs_of S"
  let ?Y = "y_pred_of ?P (threshold_of thr)"
  have len: "length S = length y" and cols: "n_columns S = n_columns y"
    using assms(2) by (simp_all add: shape_def)
  have y: "rectangular y" "1 \<le> length y"
    using type_of_target_SomeD [OF assms(3)] by simp_all
  have ycols: "n_columns y = 1 \<or> 2 \<le> n_columns y"
    using type_of_target_SomeD(4,5) [OF assms(3)] by (cases ty) simp_all
  have P: "rectangular ?P" "length ?P = length y" "n_columns ?P = n_columns y"
    using assms(1) len cols by (simp_all add: rectangular_probs_of n_columns_probs_of length_probs_of)
  have "type_of_target ?Y
        = (if n_columns y = 1 then Some Binary
           else if 2 \<le> n_columns y then Some MultilabelIndicator else None)"
    using type_of_target_y_pred_of [of ?P "threshold_of thr"] P y by simp
  moreover have "type_of_target y
        = (if n_columns y = 1 then Some Binary
           else if 2 \<le> n_columns y then Some MultilabelIndicator else None)"
    using assms(3) y by (auto simp: type_of_target_def split: if_splits)
  ultimately have Y: "type_of_target ?Y = Some ty" using assms(3) by simp
  have Ylen: "length ?Y = length y" using P(2) by (simp add: shape_y_pred_of(1))
  have "0 < length ?P" using P(2) y(2) by auto
  then have Ycols: "n_columns ?Y = n_columns y" using P(3) by (simp add: shape_y_pred_of(2))
  have ct: "check_targets y ?Y = Inr ty"
    using assms(3) Y Ylen Ycols by (simp add: check_targets_def)
  obtain f where f: "f1_score_macro y ?Y = Inr f"
    using ct by (cases ty) (simp_all add: f1_score_macro_def Let_def)
  obtain h where h: "hamming_loss y ?Y = Inr h"
    using ct by (cases ty) (simp_all add: hamming_loss_def)
  have "\<exists>xs. collect (map (\<lambda>c. if c < n_columns y
                                  then Inr (binary_roc_auc_score (column y c) (column ?Y c))
                                  else Inl IndexError)
                         [0..<n_columns ?Y]) = Inr xs"
    by (rule collect_all_Inr) (auto simp: Ycols)
  then obtain r where r: "roc_auc_score_macro y ?Y = Inr r"
    using assms(3) Ylen Ycols ycols rectangular_y_pred_of [of ?P "threshold_of thr"]
      type_of_target_SomeD(4,5) [OF assms(3)]
    by (cases ty) (auto simp: roc_auc_score_macro_def)
  show ?thesis using f h r by (simp add: multi_label_metrics_def Let_def)
qed

subsection \<open>Hamming loss\<close>

lemma y_pred_of_scores_nth:
  assumes "rectangular S" and "i < length S" and "j < n_columns S"
  shows "y_pred_of (probs_of S) t ! i ! j = thresholded_prediction t (S ! i ! j)"
proof -
  have "y_pred_of (probs_of S) t ! i ! j = (if t \<le> probs_of S ! i ! j then 1 else 0)"
    using assms
    by (intro y_pred_of_nth) (simp_all add: rectangular_probs_of n_columns_probs_of length_probs_of)
  moreover have "probs_of S ! i ! j = sigmoid (S ! i ! j)"
    using assms by (simp add: probs_of_nth rectangular_row)
  ultimately show ?thesis by (simp add: thresholded_prediction_def)
qed

lemma hamming_loss_value:
  assumes "check_targets A B = Inr ty"
  shows "hamming_loss A B
         = Inr (real (length (filter (\<lambda>(i, j). B ! i ! j \<noteq> A ! i ! j)
                                     (List.product [0..<length A] [0..<n_columns A])))
                / real (length A * n_columns A))"
proof -
  have tA: "type_of_target A = Some ty" and tB: "type_of_target B = Some ty"
    and len: "length A = length B" and cols: "n_columns A = n_columns B"
    using check_targets_InrD [OF assms] by simp_all
  have rA: "rectangular A" and rB: "rectangular B"
    using type_of_target_SomeD(1) [OF tA] type_of_target_SomeD(1) [OF tB] by simp_all
  show ?thesis
  proof (cases ty)
    case Binary
    then have "n_columns A = 1" using type_of_target_SomeD(4) [OF tA] by simp
    then show ?thesis
      using assms Binary cols one_column_mismatches [OF rA rB len]
      by (simp add: hamming_loss_def)
  next
    case MultilabelIndicator
    then show ?thesis
      using assms count_nonzero_difference [OF rA rB len cols]
      by (simp add: hamming_loss_def)
  qed
qed

lemma type_of_target_SomeI:
  assumes "rectangular y" and "1 \<le> length y" and "1 \<le> n_columns y"
    and "list_all (list_all (\<lambda>v. v = 0 \<or> v = 1)) y"
  shows "\<exists>ty. type_of_target y = Some ty"
  using assms by (auto simp: type_of_target_def)

text \<open>
  Claim C3. For a score array and a 0/1 ground-truth array of the same shape, the
  \<^verbatim>\<open>hamming_loss\<close> entry that \<^verbatim>\<open>multi_label_metrics\<close> returns is the number of
  (example, label) slots in which the thresholded prediction differs from the ground
  truth, divided by the number of slots (examples times labels). This holds for every
  returned result, with one label column or more. The function returns for every such pair
  of arrays with at least one example and one label.
\<close>

theorem hamming_loss_is_fraction_of_differing_slots:
  assumes "rectangular S"
  shows "(multi_label_metrics S y thr = Inr m \<longrightarrow>
            shape S = shape y \<and>
            m ''hamming_loss'' = Some (Float (spec_hamming_loss S y (threshold_of thr)))) \<and>
         (shape S = shape y \<and> rectangular y \<and> 1 \<le> length y \<and> 1 \<le> n_columns y \<and>
            list_all (list_all (\<lambda>v. v = 0 \<or> v = 1)) y \<longrightarrow>
            (\<exists>m'. multi_label_metrics S y thr = Inr m'))"
proof -
  let ?t = "threshold_of thr"
  let ?Y = "y_pred_of (probs_of S) ?t"
  have val: "shape S = shape y \<and>
             m ''hamming_loss'' = Some (Float (spec_hamming_loss S y ?t))"
    if ret: "multi_label_metrics S y thr = Inr m"
  proof -
    obtain ty where ct: "check_targets y ?Y = Inr ty"
      using multi_label_metrics_InrD(1) [OF ret] by blast
    have lenS: "length S = length y" and colsS: "n_columns S = n_columns y"
      using multi_label_metrics_shape [OF ret] by simp_all
    obtain h where h: "hamming_loss y ?Y = Inr h" and mh: "m ''hamming_loss'' = Some (Float h)"
      using multi_label_metrics_InrD(3) [OF ret] by blast
    have "h = real (length (filter (\<lambda>(i, j). ?Y ! i ! j \<noteq> y ! i ! j)
                              (List.product [0..<length y] [0..<n_columns y])))
              / real (length y * n_columns y)"
      using h hamming_loss_value [OF ct] by simp
    moreover have "filter (\<lambda>(i, j). ?Y ! i ! j \<noteq> y ! i ! j)
                          (List.product [0..<length y] [0..<n_columns y])
                   = differing_slots S y ?t"
      unfolding differing_slots_def
      by (rule filter_cong) (auto simp: y_pred_of_scores_nth [OF assms] lenS colsS)
    ultimately have "h = spec_hamming_loss S y ?t" by (simp add: spec_hamming_loss_def)
    then show ?thesis using mh lenS colsS by (simp add: shape_def)
  qed
  have returns: "\<exists>m'. multi_label_metrics S y thr = Inr m'"
    if w: "shape S = shape y \<and> rectangular y \<and> 1 \<le> length y \<and> 1 \<le> n_columns y \<and>
        list_all (list_all (\<lambda>v. v = 0 \<or> v = 1)) y"
  proof -
    obtain ty where "type_of_target y = Some ty"
      using type_of_target_SomeI [of y] w by blast
    then show ?thesis using assms w by (intro multi_label_metrics_returns) simp_all
  qed
  from val returns show ?thesis by blast
qed

text \<open>The witness: the worked example, the single label column (one of two slots
  differs), and the label column without positives.\<close>

theorem hamming_loss_is_fraction_of_differing_slots_witness:
  "multi_label_metrics [[ln 3, ln (1 / 9)], [0, ln 3]] [[1, 0], [0, 1]] None
     = Inr [''roc_auc'' \<mapsto> Float (3 / 4), ''hamming_loss'' \<mapsto> Float (1 / 4),
            ''f1'' \<mapsto> Float (5 / 6)] \<and>
   spec_hamming_loss [[ln 3, ln (1 / 9)], [0, ln 3]] [[1, 0], [0, 1]] (threshold_of None) = 1 / 4 \<and>
   differing_slots [[ln 3, ln (1 / 9)], [0, ln 3]] [[1, 0], [0, 1]] (3 / 10) = [(1, 0)] \<and>
   multi_label_metrics [[2], [2]] [[1], [0]] None
     = Inr [''roc_auc'' \<mapsto> Float (1 / 2), ''hamming_loss'' \<mapsto> Float (1 / 2),
            ''f1'' \<mapsto> Float (1 / 3)] \<and>
   spec_hamming_loss [[2], [2]] [[1], [0]] (threshold_of None) = 1 / 2 \<and>
   multi_label_metrics [[ln 3, ln (1 / 9)], [0, ln (1 / 9)]] [[1, 0], [0, 0]] None
     = Inr [''roc_auc'' \<mapsto> NaN, ''hamming_loss'' \<mapsto> Float (1 / 4), ''f1'' \<mapsto> Float (1 / 3)] \<and>
   spec_hamming_loss [[ln 3, ln (1 / 9)], [0, ln (1 / 9)]] [[1, 0], [0, 0]] (threshold_of None)
     = 1 / 4"
proof -
  have r: "rectangular [[ln 3, ln (1 / 9)], [0, ln 3 :: real]]"
    and r1: "rectangular [[2], [2 :: real]]"
    and r2: "rectangular [[ln 3, ln (1 / 9)], [0, ln (1 / 9) :: real]]"
    by (simp_all add: rectangular_def n_columns_def)
  have p: "List.product [0..<2] [0..<2] = [(0, 0), (0, 1), (Suc 0, 0), (Suc 0, 1)]"
    by code_simp
  have d: "differing_slots [[ln 3, ln (1 / 9)], [0, ln 3]] [[1, 0], [0, 1]] (3 / 10) = [(1, 0)]"
    by (simp add: differing_slots_def thresholded_prediction_def n_columns_def p
        sigmoid_ln sigmoid_zero)
  show ?thesis
    using hamming_loss_is_fraction_of_differing_slots [OF r, of "[[1, 0], [0, 1]]" None
        "[''roc_auc'' \<mapsto> Float (3 / 4), ''hamming_loss'' \<mapsto> Float (1 / 4),
          ''f1'' \<mapsto> Float (5 / 6)]"]
      hamming_loss_is_fraction_of_differing_slots [OF r1, of "[[1], [0]]" None
        "[''roc_auc'' \<mapsto> Float (1 / 2), ''hamming_loss'' \<mapsto> Float (1 / 2),
          ''f1'' \<mapsto> Float (1 / 3)]"]
      hamming_loss_is_fraction_of_differing_slots [OF r2, of "[[1, 0], [0, 0]]" None
        "[''roc_auc'' \<mapsto> NaN, ''hamming_loss'' \<mapsto> Float (1 / 4), ''f1'' \<mapsto> Float (1 / 3)]"]
      example_metrics example_one_column_metrics example_single_class_metrics d
    by simp
qed

subsection \<open>Macro-averaged F1\<close>


lemma harmonic_mean_quotients:
  fixes a u v :: real
  assumes "0 < a" and "0 < u" and "0 < v"
  shows "2 * (a / u) * (a / v) / (a / u + a / v) = 2 * a / (v + u)"
proof -
  have s: "a / u + a / v = a * (v + u) / (u * v)"
    using assms by (simp add: field_simps)
  have "2 * (a / u) * (a / v) / (a / u + a / v)
        = (2 * a * a / (u * v)) / (a * (v + u) / (u * v))"
    by (simp add: s)
  also have "\<dots> = 2 * a * a / (a * (v + u))"
    using assms by simp
  also have "\<dots> = 2 * a / (v + u)"
    using assms by simp
  finally show ?thesis .
qed

lemma f1_algebra:
  "prf_divide (2 * real tp) (real (tp + fn) + real (tp + fp))
   = (let p = (if tp + fp = 0 then 0 else real tp / real (tp + fp));
          r = (if tp + fn = 0 then 0 else real tp / real (tp + fn))
      in if p + r = 0 then 0 else 2 * p * r / (p + r))"
proof (cases "tp = 0")
  case True
  then show ?thesis by (simp add: prf_divide_def)
next
  case False
  have p: "0 < real tp / real (tp + fp)" and r: "0 < real tp / real (tp + fn)"
    using False by simp_all
  have ne: "real tp / real (tp + fp) + real tp / real (tp + fn) \<noteq> 0"
    using p r by linarith
  have h: "2 * (real tp / real (tp + fp)) * (real tp / real (tp + fn))
          / (real tp / real (tp + fp) + real tp / real (tp + fn))
        = 2 * real tp / (real (tp + fn) + real (tp + fp))"
    using False by (intro harmonic_mean_quotients) simp_all
  have d: "real (tp + fn) + real (tp + fp) \<noteq> 0" using False by simp
  have "prf_divide (2 * real tp) (real (tp + fn) + real (tp + fp))
        = 2 * real tp / (real (tp + fn) + real (tp + fp))"
    unfolding prf_divide_def using d by (simp only: if_False)
  also have "\<dots> = 2 * (real tp / real (tp + fp)) * (real tp / real (tp + fn))
          / (real tp / real (tp + fp) + real tp / real (tp + fn))"
    using h by simp
  also have "\<dots> = (let p = (if tp + fp = 0 then 0 else real tp / real (tp + fp));
          r = (if tp + fn = 0 then 0 else real tp / real (tp + fn))
      in if p + r = 0 then 0 else 2 * p * r / (p + r))"
  proof -
    have n1: "(tp + fp = 0) = False" and n2: "(tp + fn = 0) = False" using False by simp_all
    have n3: "(real tp / real (tp + fp) + real tp / real (tp + fn) = 0) = False"
      using ne by simp
    show ?thesis by (simp only: Let_def n1 n2 n3 if_False)
  qed
  finally show ?thesis .
qed

lemma length_filter_index:
  "length (filter Q xs) = length (filter (\<lambda>i. Q (xs ! i)) [0..<length xs])"
proof -
  have "filter Q xs = filter Q (map (nth xs) [0..<length xs])" by (simp add: map_nth)
  then show ?thesis by (simp add: filter_map comp_def)
qed

lemma column_index: "column M j = map (\<lambda>i. M ! i ! j) [0..<length M]"
  unfolding column_def by (intro nth_equalityI) simp_all

lemma length_filter_conj_split:
  "length (filter A xs)
   = length (filter (\<lambda>x. A x \<and> B x) xs) + length (filter (\<lambda>x. A x \<and> \<not> B x) xs)"
  using sum_length_filter_compl [of B "filter A xs"] by (simp add: conj_commute)


lemma count_nonzero_axis0_nth:
  assumes "j < n_columns X"
  shows "count_nonzero_axis0 X ! j = length (filter (\<lambda>i. X ! i ! j \<noteq> 0) [0..<length X])"
proof -
  have "count_nonzero_axis0 X ! j = length (filter (\<lambda>r. r ! j \<noteq> 0) X)"
    using assms by (simp add: count_nonzero_axis0_def)
  also have "\<dots> = length (filter (\<lambda>i. X ! i ! j \<noteq> 0) [0..<length X])"
    by (rule length_filter_index)
  finally show ?thesis .
qed

lemma indicator_entry:
  assumes "type_of_target y = Some ty" and "i < length y" and "j < n_columns y"
  shows "y ! i ! j = 0 \<or> y ! i ! j = 1"
proof -
  have "list_all (\<lambda>v. v = 0 \<or> v = 1) (y ! i)"
    using type_of_target_SomeD(3) [OF assms(1)] assms(2) by (simp add: list_all_length)
  moreover have "j < length (y ! i)"
    using type_of_target_SomeD(1) [OF assms(1)] assms(2,3) by (simp add: rectangular_row)
  ultimately show ?thesis by (simp add: list_all_length)
qed

lemma confusion_counts_index:
  assumes "length y = length Y"
  shows "true_positives (column y j) (column Y j)
           = length (filter (\<lambda>i. y ! i ! j = 1 \<and> Y ! i ! j = 1) [0..<length y])"
    and "false_positives (column y j) (column Y j)
           = length (filter (\<lambda>i. y ! i ! j = 0 \<and> Y ! i ! j = 1) [0..<length y])"
    and "false_negatives (column y j) (column Y j)
           = length (filter (\<lambda>i. y ! i ! j = 1 \<and> Y ! i ! j = 0) [0..<length y])"
  using assms
  by (simp_all add: true_positives_def false_positives_def false_negatives_def column_index
      zip_map_same filter_map comp_def)

lemma n_columns_table:
  "0 < n \<Longrightarrow> n_columns (map (\<lambda>i. map (g i) [0..<k]) [0..<n]) = k"
  by (simp add: n_columns_def upt_conv_Cons)

lemma f_score_label:
  assumes y: "type_of_target y = Some ty" and Y: "type_of_target Y = Some ty"
    and len: "length y = length Y" and cols: "n_columns y = n_columns Y"
    and j: "j < n_columns y"
  shows "prf_divide (2 * real (count_nonzero_axis0 (elementwise (*) y Y) ! j))
           (real (count_nonzero_axis0 y ! j) + real (count_nonzero_axis0 Y ! j))
         = binary_f1 (column y j) (column Y j)"
proof -
  let ?is = "[0..<length y]"
  let ?tp = "true_positives (column y j) (column Y j)"
  let ?fp = "false_positives (column y j) (column Y j)"
  let ?fn = "false_negatives (column y j) (column Y j)"
  have ry: "rectangular y" and rY: "rectangular Y" and pos: "0 < length y"
    using type_of_target_SomeD(1,2) [OF y] type_of_target_SomeD(1) [OF Y] by auto
  have bin_y: "y ! i ! j = 0 \<or> y ! i ! j = 1" if "i < length y" for i
    using y that j by (rule indicator_entry)
  have bY: "Y ! i ! j = 0 \<or> Y ! i ! j = 1" if "i < length y" for i
    using that j len cols by (intro indicator_entry [OF Y]) simp_all
  have prod: "elementwise (*) y Y
              = map (\<lambda>i. map (\<lambda>j. y ! i ! j * Y ! i ! j) [0..<n_columns y]) ?is"
    using ry rY len cols by (rule elementwise_index)
  have pc: "n_columns (elementwise (*) y Y) = n_columns y"
    unfolding prod using pos by (rule n_columns_table)
  have "count_nonzero_axis0 (elementwise (*) y Y) ! j
        = length (filter (\<lambda>i. elementwise (*) y Y ! i ! j \<noteq> 0) [0..<length (elementwise (*) y Y)])"
    using j pc by (intro count_nonzero_axis0_nth) simp
  also have "\<dots> = length (filter (\<lambda>i. elementwise (*) y Y ! i ! j \<noteq> 0) ?is)"
    by (simp add: prod)
  also have "filter (\<lambda>i. elementwise (*) y Y ! i ! j \<noteq> 0) ?is
             = filter (\<lambda>i. y ! i ! j = 1 \<and> Y ! i ! j = 1) ?is"
  proof (rule filter_cong [OF refl])
    fix i assume "i \<in> set ?is"
    then have i: "i < length y" by simp
    then have "elementwise (*) y Y ! i ! j = y ! i ! j * Y ! i ! j"
      using j by (simp add: prod)
    then show "(elementwise (*) y Y ! i ! j \<noteq> 0) = (y ! i ! j = 1 \<and> Y ! i ! j = 1)"
      using bin_y [OF i] bY [OF i] by auto
  qed
  finally have tp: "count_nonzero_axis0 (elementwise (*) y Y) ! j = ?tp"
    by (simp add: confusion_counts_index(1) [OF len])
  have "count_nonzero_axis0 y ! j = length (filter (\<lambda>i. y ! i ! j \<noteq> 0) ?is)"
    using j by (rule count_nonzero_axis0_nth)
  also have "filter (\<lambda>i. y ! i ! j \<noteq> 0) ?is = filter (\<lambda>i. y ! i ! j = 1) ?is"
    by (rule filter_cong [OF refl]) (use bin_y in auto)
  also have "length (filter (\<lambda>i. y ! i ! j = 1) ?is)
             = length (filter (\<lambda>i. y ! i ! j = 1 \<and> Y ! i ! j = 1) ?is)
               + length (filter (\<lambda>i. y ! i ! j = 1 \<and> \<not> Y ! i ! j = 1) ?is)"
    by (rule length_filter_conj_split)
  also have "filter (\<lambda>i. y ! i ! j = 1 \<and> \<not> Y ! i ! j = 1) ?is
             = filter (\<lambda>i. y ! i ! j = 1 \<and> Y ! i ! j = 0) ?is"
    by (rule filter_cong [OF refl]) (use bY in auto)
  finally have true_sum: "count_nonzero_axis0 y ! j = ?tp + ?fn"
    by (simp add: confusion_counts_index [OF len])
  have "count_nonzero_axis0 Y ! j = length (filter (\<lambda>i. Y ! i ! j \<noteq> 0) [0..<length Y])"
    using j cols by (intro count_nonzero_axis0_nth) simp
  also have "\<dots> = length (filter (\<lambda>i. Y ! i ! j \<noteq> 0) ?is)"
    using len by simp
  also have "filter (\<lambda>i. Y ! i ! j \<noteq> 0) ?is = filter (\<lambda>i. Y ! i ! j = 1) ?is"
    by (rule filter_cong [OF refl]) (use bY in auto)
  also have "length (filter (\<lambda>i. Y ! i ! j = 1) ?is)
             = length (filter (\<lambda>i. Y ! i ! j = 1 \<and> y ! i ! j = 1) ?is)
               + length (filter (\<lambda>i. Y ! i ! j = 1 \<and> \<not> y ! i ! j = 1) ?is)"
    by (rule length_filter_conj_split)
  also have "filter (\<lambda>i. Y ! i ! j = 1 \<and> \<not> y ! i ! j = 1) ?is
             = filter (\<lambda>i. y ! i ! j = 0 \<and> Y ! i ! j = 1) ?is"
    by (rule filter_cong [OF refl]) (use bin_y in auto)
  also have "filter (\<lambda>i. Y ! i ! j = 1 \<and> y ! i ! j = 1) ?is
             = filter (\<lambda>i. y ! i ! j = 1 \<and> Y ! i ! j = 1) ?is"
    by (rule filter_cong [OF refl]) auto
  finally have pred_sum: "count_nonzero_axis0 Y ! j = ?tp + ?fp"
    by (simp add: confusion_counts_index [OF len])
  show ?thesis
    unfolding tp true_sum pred_sum binary_f1_def precision_def recall_def
    using f1_algebra [of ?tp ?fn ?fp] by (simp add: Let_def)
qed


lemma f1_score_macro_columns:
  assumes "check_targets y Y = Inr MultilabelIndicator"
  shows "f1_score_macro y Y
         = Inr (sum_list (map (\<lambda>j. binary_f1 (column y j) (column Y j)) [0..<n_columns y])
                / real (n_columns y))"
proof -
  have ind: "type_of_target y = Some MultilabelIndicator"
    "type_of_target Y = Some MultilabelIndicator"
    and len: "length y = length Y" and cols: "n_columns y = n_columns Y"
    using check_targets_InrD [OF assms] by simp_all
  have ry: "rectangular y" and rY: "rectangular Y" and pos: "0 < length y"
    using type_of_target_SomeD(1,2) [OF ind(1)] type_of_target_SomeD(1) [OF ind(2)] by auto
  have "elementwise (*) y Y
        = map (\<lambda>i. map (\<lambda>j. y ! i ! j * Y ! i ! j) [0..<n_columns y]) [0..<length y]"
    using ry rY len cols by (rule elementwise_index)
  then have "n_columns (elementwise (*) y Y) = n_columns y"
    using pos by (simp add: n_columns_table)
  then have k: "length (count_nonzero_axis0 (elementwise (*) y Y)) = n_columns y"
    by (simp add: count_nonzero_axis0_def)
  have scores: "map (\<lambda>j. prf_divide (2 * real (count_nonzero_axis0 (elementwise (*) y Y) ! j))
                      (real (count_nonzero_axis0 y ! j) + real (count_nonzero_axis0 Y ! j)))
                    [0..<n_columns y]
                = map (\<lambda>j. binary_f1 (column y j) (column Y j)) [0..<n_columns y]"
    by (rule map_cong [OF refl]) (simp add: f_score_label [OF ind len cols])
  show ?thesis
    using assms by (simp add: f1_score_macro_def Let_def k scores)
qed

lemma column_y_pred_of:
  assumes "rectangular S" and "j < n_columns S"
  shows "column (y_pred_of (probs_of S) t) j = map (thresholded_prediction t) (column S j)"
proof (rule nth_equalityI)
  show "length (column (y_pred_of (probs_of S) t) j)
        = length (map (thresholded_prediction t) (column S j))"
    by (simp add: column_def shape_y_pred_of(1) length_probs_of)
next
  fix i assume "i < length (column (y_pred_of (probs_of S) t) j)"
  then have i: "i < length S"
    by (simp add: column_def shape_y_pred_of(1) length_probs_of)
  then have "column (y_pred_of (probs_of S) t) j ! i = y_pred_of (probs_of S) t ! i ! j"
    by (simp add: column_def shape_y_pred_of(1) length_probs_of)
  also have "\<dots> = thresholded_prediction t (S ! i ! j)"
    using assms(1) i assms(2) by (rule y_pred_of_scores_nth)
  finally show "column (y_pred_of (probs_of S) t) j ! i
                = map (thresholded_prediction t) (column S j) ! i"
    using i by (simp add: column_def)
qed

subsection \<open>Macro-averaged F1 on a single label column\<close>

lemma length_filter_zip_fst:
  "length t = length p \<Longrightarrow>
   length (filter Q t) = length (filter (\<lambda>(a, b). Q a) (zip t p))"
  by (induction t p rule: list_induct2) simp_all

lemma length_filter_zip_snd:
  "length t = length p \<Longrightarrow>
   length (filter Q p) = length (filter (\<lambda>(a, b). Q b) (zip t p))"
  by (induction t p rule: list_induct2) simp_all

lemma f_score_class:
  assumes "length t = length p"
  shows "prf_divide (2 * real (length (filter (\<lambda>(a, b). a = c \<and> b = c) (zip t p))))
           (real (length (filter (\<lambda>a. a = c) t)) + real (length (filter (\<lambda>b. b = c) p)))
         = class_f1 c t p"
proof -
  let ?tp = "length (filter (\<lambda>(a, b). a = c \<and> b = c) (zip t p))"
  let ?fp = "length (filter (\<lambda>(a, b). a \<noteq> c \<and> b = c) (zip t p))"
  let ?fn = "length (filter (\<lambda>(a, b). a = c \<and> b \<noteq> c) (zip t p))"
  have "length (filter (\<lambda>a. a = c) t) = length (filter (\<lambda>(a, b). a = c) (zip t p))"
    using assms by (rule length_filter_zip_fst)
  also have "\<dots> = length (filter (\<lambda>ab. (case ab of (a, b) \<Rightarrow> a = c)
                                       \<and> (case ab of (a, b) \<Rightarrow> b = c)) (zip t p))
                   + length (filter (\<lambda>ab. (case ab of (a, b) \<Rightarrow> a = c)
                                         \<and> \<not> (case ab of (a, b) \<Rightarrow> b = c)) (zip t p))"
    by (rule length_filter_conj_split)
  also have "\<dots> = ?tp + ?fn"
    by (simp add: case_prod_unfold)
  finally have true_sum: "length (filter (\<lambda>a. a = c) t) = ?tp + ?fn" .
  have "length (filter (\<lambda>b. b = c) p) = length (filter (\<lambda>(a, b). b = c) (zip t p))"
    using assms by (rule length_filter_zip_snd)
  also have "\<dots> = length (filter (\<lambda>ab. (case ab of (a, b) \<Rightarrow> b = c)
                                       \<and> (case ab of (a, b) \<Rightarrow> a = c)) (zip t p))
                   + length (filter (\<lambda>ab. (case ab of (a, b) \<Rightarrow> b = c)
                                         \<and> \<not> (case ab of (a, b) \<Rightarrow> a = c)) (zip t p))"
    by (rule length_filter_conj_split)
  also have "\<dots> = ?tp + ?fp"
    by (simp add: case_prod_unfold conj_commute)
  finally have pred_sum: "length (filter (\<lambda>b. b = c) p) = ?tp + ?fp" .
  show ?thesis
    unfolding true_sum pred_sum class_f1_def class_precision_def class_recall_def
    using f1_algebra [of ?tp ?fn ?fp] by (simp add: Let_def)
qed

lemma f1_score_macro_classes:
  assumes "check_targets y Y = Inr Binary"
  shows "f1_score_macro y Y
         = Inr (sum_list (map (\<lambda>c. class_f1 c (concat y) (concat Y))
                              (sort (remdups (concat y @ concat Y))))
                / real (length (sort (remdups (concat y @ concat Y)))))"
proof -
  have ty: "type_of_target y = Some Binary" and tY: "type_of_target Y = Some Binary"
    and len: "length y = length Y"
    using check_targets_InrD [OF assms] by simp_all
  have "concat y = map (\<lambda>i. y ! i ! 0) [0..<length y]"
    using type_of_target_SomeD(1,4) [OF ty] by (intro concat_one_column) simp_all
  moreover have "concat Y = map (\<lambda>i. Y ! i ! 0) [0..<length Y]"
    using type_of_target_SomeD(1,4) [OF tY] by (intro concat_one_column) simp_all
  ultimately have l: "length (concat y) = length (concat Y)" using len by simp
  have "map (\<lambda>c. prf_divide
                 (2 * real (length (filter (\<lambda>(a, b). a = c \<and> b = c) (zip (concat y) (concat Y)))))
                 (real (length (filter (\<lambda>a. a = c) (concat y)))
                  + real (length (filter (\<lambda>b. b = c) (concat Y)))))
            (sort (remdups (concat y @ concat Y)))
        = map (\<lambda>c. class_f1 c (concat y) (concat Y)) (sort (remdups (concat y @ concat Y)))"
    by (rule map_cong [OF refl]) (rule f_score_class [OF l])
  then show ?thesis
    unfolding f1_score_macro_def assms Let_def column_or_1d_def unique_labels_def
    by (simp only: sum.case target_type.case length_map)
qed

lemma concat_y_pred_of:
  assumes "rectangular S"
  shows "concat (y_pred_of (probs_of S) t) = map (thresholded_prediction t) (concat S)"
proof -
  have "(\<lambda>s. if t \<le> sigmoid s then 1 else 0) = thresholded_prediction t"
    by (rule ext) (simp add: thresholded_prediction_def)
  then show ?thesis
    by (simp add: y_pred_of_scores [OF assms] map_concat)
qed

subsection \<open>The \<^verbatim>\<open>f1\<close> entry\<close>

text \<open>
  Claim C4 says that the \<^verbatim>\<open>f1\<close> entry is the unweighted mean over the labels of the
  F1 score of each label column. With a single label column it is not: the library reads
  the one column as a vector of class labels and averages the F1 scores of the classes 0
  and 1. For two examples with score 2 and ground truth \<open>[[1], [0]]\<close> both predictions
  are 1; the F1 score of the label is 2/3, the returned entry is the mean of 2/3 (class 1)
  and 0 (class 0).
\<close>

theorem f1_single_label_column_counterexample:
  "multi_label_metrics [[2], [2]] [[1], [0]] None
     = Inr [''roc_auc'' \<mapsto> Float (1 / 2), ''hamming_loss'' \<mapsto> Float (1 / 2),
            ''f1'' \<mapsto> Float (1 / 3)] \<and>
   spec_macro_f1 [[2], [2]] [[1], [0]] (threshold_of None) = 2 / 3 \<and>
   [''roc_auc'' \<mapsto> Float (1 / 2), ''hamming_loss'' \<mapsto> Float (1 / 2), ''f1'' \<mapsto> Float (1 / 3)] ''f1''
     \<noteq> Some (Float (spec_macro_f1 [[2], [2]] [[1], [0]] (threshold_of None)))"
proof -
  have u: "[0..<1] = [0]" by simp
  have b: "binary_f1 [1, 0] [1, 1] = 2 / 3" by code_simp
  have "3 / 10 \<le> sigmoid 2" using sigmoid_two by simp
  then have "spec_macro_f1 [[2], [2]] [[1], [0]] (threshold_of None) = 2 / 3"
    by (simp add: spec_macro_f1_def threshold_of_def thresholded_prediction_def n_columns_def
        column_def u b)
  then show ?thesis by (simp add: example_one_column_metrics)
qed

text \<open>
  Claim C4, amended. When there are two or more label columns, the \<^verbatim>\<open>f1\<close> entry
  that \<^verbatim>\<open>multi_label_metrics\<close> returns is the macro-averaged F1: for every label on
  its own, the F1 score of the thresholded prediction column against the ground-truth
  column, and then the unweighted mean of these scores over the labels. (The library
  computes the counts as column sums over the whole arrays; \<open>spec_macro_f1\<close> takes the
  columns apart and scores each.) When there is a single label column, the entry is the
  unweighted mean, over the classes 0 and 1 that occur in the ground truth or in the
  predictions, of the F1 score of that class. The function returns for every score array
  and 0/1 ground truth of the same shape with at least one example and one label.
\<close>

theorem f1_is_macro_average_over_labels_or_classes:
  assumes "rectangular S"
  shows "(multi_label_metrics S y thr = Inr m \<and> 2 \<le> n_columns y \<longrightarrow>
            m ''f1'' = Some (Float (spec_macro_f1 S y (threshold_of thr)))) \<and>
         (multi_label_metrics S y thr = Inr m \<and> n_columns y = 1 \<longrightarrow>
            m ''f1'' = Some (Float (class_macro_f1 S y (threshold_of thr)))) \<and>
         (multi_label_metrics S y thr = Inr m \<longrightarrow> 1 \<le> n_columns y) \<and>
         (shape S = shape y \<and> rectangular y \<and> 1 \<le> length y \<and> 1 \<le> n_columns y \<and>
            list_all (list_all (\<lambda>v. v = 0 \<or> v = 1)) y \<longrightarrow>
            (\<exists>m'. multi_label_metrics S y thr = Inr m'))"
proof -
  let ?t = "threshold_of thr"
  let ?Y = "y_pred_of (probs_of S) ?t"
  have labels: "m ''f1'' = Some (Float (spec_macro_f1 S y ?t))"
    if ret: "multi_label_metrics S y thr = Inr m" and two: "2 \<le> n_columns y"
  proof -
    obtain ty where ct: "check_targets y ?Y = Inr ty"
      using multi_label_metrics_InrD(1) [OF ret] by blast
    have "type_of_target y = Some ty" using check_targets_InrD(1) [OF ct] .
    then have "ty = MultilabelIndicator" using type_of_target_SomeD(5) two by blast
    then have ct: "check_targets y ?Y = Inr MultilabelIndicator" using ct by simp
    have colsS: "n_columns S = n_columns y"
      using multi_label_metrics_shape(2) [OF ret] .
    obtain f where f: "f1_score_macro y ?Y = Inr f" and mf: "m ''f1'' = Some (Float f)"
      using multi_label_metrics_InrD(2) [OF ret] by blast
    have "map (\<lambda>j. binary_f1 (column y j) (column ?Y j)) [0..<n_columns y]
          = map (\<lambda>j. binary_f1 (column y j) (map (thresholded_prediction ?t) (column S j)))
                [0..<n_columns y]"
      by (rule map_cong [OF refl]) (simp add: column_y_pred_of [OF assms] colsS)
    then have "sum_list (map (\<lambda>j. binary_f1 (column y j) (column ?Y j)) [0..<n_columns y])
                 / real (n_columns y) = spec_macro_f1 S y ?t"
      unfolding spec_macro_f1_def by (rule arg_cong)
    moreover have "f = sum_list (map (\<lambda>j. binary_f1 (column y j) (column ?Y j)) [0..<n_columns y])
                 / real (n_columns y)"
      using f f1_score_macro_columns [OF ct] by simp
    ultimately have "f = spec_macro_f1 S y ?t" by (rule trans [rotated])
    then show ?thesis using mf by simp
  qed
  have classes: "m ''f1'' = Some (Float (class_macro_f1 S y ?t))"
    if ret: "multi_label_metrics S y thr = Inr m" and one: "n_columns y = 1"
  proof -
    obtain ty where ct: "check_targets y ?Y = Inr ty"
      using multi_label_metrics_InrD(1) [OF ret] by blast
    have "type_of_target y = Some ty" using check_targets_InrD(1) [OF ct] .
    then have "ty = Binary" using type_of_target_SomeD(4) one by blast
    then have ct: "check_targets y ?Y = Inr Binary" using ct by simp
    obtain f where f: "f1_score_macro y ?Y = Inr f" and mf: "m ''f1'' = Some (Float f)"
      using multi_label_metrics_InrD(2) [OF ret] by blast
    have "f = class_macro_f1 S y ?t"
      using f f1_score_macro_classes [OF ct]
      by (simp add: class_macro_f1_def Let_def concat_y_pred_of [OF assms])
    then show ?thesis using mf by simp
  qed
  have cols: "1 \<le> n_columns y" if ret: "multi_label_metrics S y thr = Inr m"
  proof -
    obtain ty where ty: "type_of_target y = Some ty"
      using multi_label_metrics_shape(3) [OF ret] by blast
    show ?thesis using type_of_target_SomeD(4,5) [OF ty] by (cases ty) simp_all
  qed
  have returns: "\<exists>m'. multi_label_metrics S y thr = Inr m'"
    if w: "shape S = shape y \<and> rectangular y \<and> 1 \<le> length y \<and> 1 \<le> n_columns y \<and>
        list_all (list_all (\<lambda>v. v = 0 \<or> v = 1)) y"
  proof -
    obtain ty where "type_of_target y = Some ty"
      using type_of_target_SomeI [of y] w by blast
    then show ?thesis using assms w by (intro multi_label_metrics_returns) simp_all
  qed
  from labels classes cols returns show ?thesis by blast
qed

lemma example_label_f1:
  "binary_f1 [1, 0] [1, 1] = 2 / 3" "binary_f1 [0, 1] [0, 1] = 1"
  by code_simp+

lemma example_class_f1:
  "class_f1 0 [1, 0] [1, 1] = 0" "class_f1 1 [1, 0] [1, 1] = 2 / 3"
  by code_simp+

theorem f1_is_macro_average_over_labels_or_classes_witness:
  "multi_label_metrics [[ln 3, ln (1 / 9)], [0, ln 3]] [[1, 0], [0, 1]] None
     = Inr [''roc_auc'' \<mapsto> Float (3 / 4), ''hamming_loss'' \<mapsto> Float (1 / 4),
            ''f1'' \<mapsto> Float (5 / 6)] \<and>
   spec_macro_f1 [[ln 3, ln (1 / 9)], [0, ln 3]] [[1, 0], [0, 1]] (threshold_of None) = 5 / 6 \<and>
   spec_macro_f1 [[ln 3, ln (1 / 9)], [0, ln 3]] [[1, 0], [0, 1]] (3 / 10)
     = (binary_f1 [1, 0] [1, 1] + binary_f1 [0, 1] [0, 1]) / 2 \<and>
   multi_label_metrics [[2], [2]] [[1], [0]] None
     = Inr [''roc_auc'' \<mapsto> Float (1 / 2), ''hamming_loss'' \<mapsto> Float (1 / 2),
            ''f1'' \<mapsto> Float (1 / 3)] \<and>
   class_macro_f1 [[2], [2]] [[1], [0]] (threshold_of None) = 1 / 3 \<and>
   class_macro_f1 [[2], [2]] [[1], [0]] (3 / 10)
     = (class_f1 0 [1, 0] [1, 1] + class_f1 1 [1, 0] [1, 1]) / 2"
proof -
  have r: "rectangular [[ln 3, ln (1 / 9)], [0, ln 3 :: real]]"
    and r1: "rectangular [[2], [2 :: real]]"
    by (simp_all add: rectangular_def n_columns_def)
  have u: "[0..<2] = [0, Suc 0]" by code_simp
  have d: "spec_macro_f1 [[ln 3, ln (1 / 9)], [0, ln 3]] [[1, 0], [0, 1]] (3 / 10)
           = (binary_f1 [1, 0] [1, 1] + binary_f1 [0, 1] [0, 1]) / 2"
    by (simp add: spec_macro_f1_def thresholded_prediction_def n_columns_def column_def u
        sigmoid_ln sigmoid_zero)
  have "3 / 10 \<le> sigmoid 2" using sigmoid_two by simp
  then have c: "class_macro_f1 [[2], [2]] [[1], [0]] (3 / 10)
           = (class_f1 0 [1, 0] [1, 1] + class_f1 1 [1, 0] [1, 1]) / 2"
    by (simp add: class_macro_f1_def thresholded_prediction_def Let_def)
  have n: "n_columns [[1], [0 :: real]] = 1" "n_columns [[1, 0], [0, 1 :: real]] = 2"
    by (simp_all add: n_columns_def)
  show ?thesis
    using f1_is_macro_average_over_labels_or_classes [OF r, of "[[1, 0], [0, 1]]" None
        "[''roc_auc'' \<mapsto> Float (3 / 4), ''hamming_loss'' \<mapsto> Float (1 / 4),
          ''f1'' \<mapsto> Float (5 / 6)]"]
      f1_is_macro_average_over_labels_or_classes [OF r1, of "[[1], [0]]" None
        "[''roc_auc'' \<mapsto> Float (1 / 2), ''hamming_loss'' \<mapsto> Float (1 / 2),
          ''f1'' \<mapsto> Float (1 / 3)]"]
      example_metrics example_one_column_metrics d c n
    by simp
qed

subsection \<open>ROC-AUC\<close>

lemma roc_auc_of_y_pred:
  assumes "multi_label_metrics S y thr = Inr m"
  shows "\<exists>r. roc_auc_score_macro y (y_pred_of (probs_of S) (threshold_of thr)) = Inr r \<and>
             m ''roc_auc'' = Some r"
  using assms by (rule multi_label_metrics_InrD(4))

text \<open>
  Claim C1 says that the \<^verbatim>\<open>roc_auc\<close> entry is the macro-averaged AUC of the
  probabilities. The source passes \<^verbatim>\<open>y_pred\<close>, the thresholded predictions, as the
  score argument of \<^verbatim>\<open>roc_auc_score\<close>. On the worked example the two differ: the
  returned entry is the macro AUC of \<^verbatim>\<open>y_pred\<close>, 3/4 (label 0 is predicted for both
  examples, so its AUC is 1/2), while the probabilities rank both labels perfectly and
  their macro AUC is 1.
\<close>

theorem roc_auc_entry_is_auc_of_thresholded_predictions_example:
  "multi_label_metrics [[ln 3, ln (1 / 9)], [0, ln 3]] [[1, 0], [0, 1]] None
     = Inr [''roc_auc'' \<mapsto> Float (3 / 4), ''hamming_loss'' \<mapsto> Float (1 / 4),
            ''f1'' \<mapsto> Float (5 / 6)] \<and>
   roc_auc_score_macro [[1, 0], [0, 1]]
       (y_pred_of (probs_of [[ln 3, ln (1 / 9)], [0, ln 3]]) (threshold_of None))
     = Inr (Float (3 / 4)) \<and>
   spec_macro_roc_auc [[ln 3, ln (1 / 9)], [0, ln 3]] [[1, 0], [0, 1]] = Inr (Float 1)"
  by (simp add: example_metrics example_probs example_y_pred example_roc_auc
      example_roc_auc_probs spec_macro_roc_auc_def threshold_of_def)

subsection \<open>The label encoder\<close>


lemma fit_classes:
  "sorted (classes (fit train))" "distinct (classes (fit train))"
  "set (classes (fit train)) = set (concat train)"
  by (simp_all add: fit_def)

lemma indicator_filter:
  "map fst (filter (\<lambda>(c, v). v \<noteq> 0) (zip cs (map f cs))) = filter (\<lambda>c. f c \<noteq> 0) cs"
  by (induction cs) simp_all

lemma transform_rows:
  "length (transform mlb Y) = length Y"
  "row \<in> set (transform mlb Y) \<Longrightarrow> length row = length (classes mlb) \<and> set row \<subseteq> {0, 1}"
  by (auto simp: transform_def)

lemma inverse_transform_transform:
  "inverse_transform mlb (transform mlb Y)
   = Inr (map (\<lambda>ls. filter (\<lambda>c. c \<in> set ls) (classes mlb)) Y)"
proof -
  have w: "list_all (\<lambda>row. length row = length (classes mlb)) (transform mlb Y)"
    by (simp add: list_all_iff transform_def)
  have b: "list_all (list_all (\<lambda>v. v = 0 \<or> v = 1)) (transform mlb Y)"
    by (auto simp: list_all_iff transform_def)
  have "map (\<lambda>row. map fst (filter (\<lambda>(c, v). v \<noteq> 0) (zip (classes mlb) row))) (transform mlb Y)
        = map (\<lambda>ls. filter (\<lambda>c. c \<in> set ls) (classes mlb)) Y"
    by (simp add: transform_def comp_def indicator_filter)
  then show ?thesis using w b by (simp add: inverse_transform_def)
qed

lemma member_selected:
  assumes "distinct cs" and "length row = length cs" and "k < length cs"
  shows "cs ! k \<in> set (map fst (filter (\<lambda>(c, v). v \<noteq> 0) (zip cs row))) \<longleftrightarrow> row ! k \<noteq> (0::int)"
proof
  assume "cs ! k \<in> set (map fst (filter (\<lambda>(c, v). v \<noteq> (0::int)) (zip cs row)))"
  then obtain v where "(cs ! k, v) \<in> set (zip cs row)" and v: "v \<noteq> 0" by auto
  then obtain k' where k': "k' < length cs" "cs ! k' = cs ! k" "row ! k' = v"
    using assms(2) by (auto simp: set_zip)
  then have "k' = k" using assms(1,3) by (simp add: nth_eq_iff_index_eq)
  then show "row ! k \<noteq> 0" using k'(3) v by simp
next
  assume "row ! k \<noteq> 0"
  moreover have "(cs ! k, row ! k) \<in> set (zip cs row)"
    using assms(2,3) by (auto simp: set_zip)
  ultimately show "cs ! k \<in> set (map fst (filter (\<lambda>(c, v). v \<noteq> 0) (zip cs row)))"
    by force
qed

lemma transform_inverse_transform_row:
  assumes "distinct (classes mlb)" and "length row = length (classes mlb)"
    and "set row \<subseteq> {0, 1}"
  shows "inverse_transform mlb [row]
           = Inr [map fst (filter (\<lambda>(c, v). v \<noteq> 0) (zip (classes mlb) row))]"
    and "transform mlb [map fst (filter (\<lambda>(c, v). v \<noteq> 0) (zip (classes mlb) row))] = [row]"
proof -
  have "list_all (\<lambda>v. v = 0 \<or> v = 1) row" using assms(3) by (auto simp: list_all_iff)
  then show "inverse_transform mlb [row]
           = Inr [map fst (filter (\<lambda>(c, v). v \<noteq> 0) (zip (classes mlb) row))]"
    using assms(2) by (simp add: inverse_transform_def)
  let ?tup = "map fst (filter (\<lambda>(c, v). v \<noteq> 0) (zip (classes mlb) row))"
  have "map (\<lambda>c. if c \<in> set ?tup then 1 else 0) (classes mlb) = row"
  proof (rule nth_equalityI)
    show "length (map (\<lambda>c. if c \<in> set ?tup then 1 else (0::int)) (classes mlb)) = length row"
      using assms(2) by simp
  next
    fix k assume "k < length (map (\<lambda>c. if c \<in> set ?tup then 1 else (0::int)) (classes mlb))"
    then have k: "k < length (classes mlb)" by simp
    have "row ! k \<in> set row" using k assms(2) by simp
    then have "row ! k = 0 \<or> row ! k = 1" using assms(3) by auto
    then show "map (\<lambda>c. if c \<in> set ?tup then 1 else 0) (classes mlb) ! k = row ! k"
      using k member_selected [OF assms(1,2) k] by auto
  qed
  then show "transform mlb [?tup] = [row]" by (simp add: transform_def)
qed

lemma encode_labels_eq:
  "encode_labels train test
   = (fit train, astype_float32 (transform (fit train) train),
      astype_float32 (transform (fit train) test))"
  by (simp add: encode_labels_def fit_transform_def Let_def)

text \<open>
  Claim C6. The fitted binarizer holds the sorted, duplicate-free list of the label strings
  of the training data. The encoding cell fits once, on the training labels, and applies
  that same fitted object to the test labels. Every encoded row has the width of the class
  list and entries 0 and 1. For every label list drawn from the fitted classes,
  \<^verbatim>\<open>inverse_transform\<close> of \<^verbatim>\<open>transform\<close> returns exactly that set of labels (as a
  sorted tuple without repetition); and every 0/1 row of the right width is the encoding of
  the label tuple \<^verbatim>\<open>inverse_transform\<close> returns for it. So label sets over the classes
  and indicator rows correspond one to one.
\<close>

theorem binarizer_round_trip:
  "sorted (classes (fit train)) \<and> distinct (classes (fit train)) \<and>
   set (classes (fit train)) = set (concat train) \<and>
   encode_labels train test
     = (fit train, astype_float32 (transform (fit train) train),
        astype_float32 (transform (fit train) test)) \<and>
   length (transform (fit train) Y) = length Y \<and>
   (\<forall>row \<in> set (transform (fit train) Y).
       length row = length (classes (fit train)) \<and> set row \<subseteq> {0, 1}) \<and>
   (set ls \<subseteq> set (classes (fit train)) \<longrightarrow>
      (\<exists>tup. inverse_transform (fit train) (transform (fit train) [ls]) = Inr [tup] \<and>
             set tup = set ls \<and> sorted tup \<and> distinct tup)) \<and>
   (length row = length (classes (fit train)) \<and> set row \<subseteq> {0, 1} \<longrightarrow>
      (\<exists>tup. inverse_transform (fit train) [row] = Inr [tup] \<and>
             set tup \<subseteq> set (classes (fit train)) \<and>
             transform (fit train) [tup] = [row]))"
proof -
  let ?mlb = "fit train"
  have rt: "\<exists>tup. inverse_transform ?mlb (transform ?mlb [ls]) = Inr [tup] \<and>
             set tup = set ls \<and> sorted tup \<and> distinct tup"
    if "set ls \<subseteq> set (classes ?mlb)"
  proof -
    let ?tup = "filter (\<lambda>c. c \<in> set ls) (classes ?mlb)"
    have "inverse_transform ?mlb (transform ?mlb [ls]) = Inr [?tup]"
      by (simp add: inverse_transform_transform)
    moreover have "set ?tup = set ls" using that by auto
    moreover have "sorted ?tup" using fit_classes(1) [of train] by (rule sorted_wrt_filter)
    moreover have "distinct ?tup" using fit_classes(2) [of train] by simp
    ultimately show ?thesis by blast
  qed
  have tr: "\<exists>tup. inverse_transform ?mlb [row] = Inr [tup] \<and>
             set tup \<subseteq> set (classes ?mlb) \<and> transform ?mlb [tup] = [row]"
    if "length row = length (classes ?mlb) \<and> set row \<subseteq> {0, 1}"
  proof -
    let ?tup = "map fst (filter (\<lambda>(c, v). v \<noteq> 0) (zip (classes ?mlb) row))"
    have "set ?tup \<subseteq> set (classes ?mlb)" by (auto dest: set_zip_leftD)
    then show ?thesis
      using transform_inverse_transform_row [OF fit_classes(2) [of train], of row] that
      by blast
  qed
  have rows: "\<forall>row \<in> set (transform ?mlb Y).
       length row = length (classes ?mlb) \<and> set row \<subseteq> {0, 1}"
    using transform_rows(2) [where mlb = ?mlb and Y = Y] by blast
  show ?thesis
    using fit_classes [of train] encode_labels_eq [of train test]
      transform_rows(1) [where mlb = ?mlb and Y = Y] rows rt tr
    by blast
qed

theorem binarizer_round_trip_witness:
  "classes (fit [['' singular''], ['' plural''], ['' plural'', '' singular'']])
     = ['' plural'', '' singular''] \<and>
   transform (fit [['' singular''], ['' plural''], ['' plural'', '' singular'']])
       [['' singular''], ['' singular'', '' plural'']] = [[0, 1], [1, 1]] \<and>
   (\<exists>tup. inverse_transform (fit [['' singular''], ['' plural''], ['' plural'', '' singular'']])
            (transform (fit [['' singular''], ['' plural''], ['' plural'', '' singular'']])
               [['' singular'', '' plural'']]) = Inr [tup] \<and>
          set tup = {'' singular'', '' plural''} \<and> sorted tup \<and> distinct tup) \<and>
   (\<exists>tup. inverse_transform (fit [['' singular''], ['' plural''], ['' plural'', '' singular'']])
            [[1, 0]] = Inr [tup] \<and>
          transform (fit [['' singular''], ['' plural''], ['' plural'', '' singular'']]) [tup]
            = [[1, 0]])"
proof -
  let ?mlb = "fit [['' singular''], ['' plural''], ['' plural'', '' singular'']]"
  have c: "classes ?mlb = ['' plural'', '' singular'']"
    by (simp add: fit_def)
  have t: "transform ?mlb [['' singular''], ['' singular'', '' plural'']] = [[0, 1], [1, 1]]"
    by (simp add: transform_def c)
  have s: "set ['' singular'', '' plural''] \<subseteq> set (classes ?mlb)"
    by (simp add: c)
  have r: "length [1, 0 :: int] = length (classes ?mlb) \<and> set [1, 0 :: int] \<subseteq> {0, 1}"
    by (simp add: c)
  have "set ['' singular'', '' plural''] = {'' singular'', '' plural''}" by simp
  then show ?thesis
    using binarizer_round_trip [of "[['' singular''], ['' plural''], ['' plural'', '' singular'']]"
        "[]" "[]" "['' singular'', '' plural'']" "[1, 0]"] c t s r
    by metis
qed

subsection \<open>The dataset adapter\<close>


lemma one_row:
  assumes "shape M = (1, n)"
  shows "\<exists>r. M = [r] \<and> length r = n"
proof -
  obtain r where "M = [r]"
    using assms by (cases M) (auto simp: shape_def)
  then show ?thesis using assms by (simp add: shape_def n_columns_def)
qed

lemma pads_to_max_length_char_tokenizer: "pads_to_max_length char_tokenizer n"
  by (simp add: pads_to_max_length_def char_tokenizer_def Let_def shape_def n_columns_def)

lemma py_index_valid:
  assumes "- int (length xs) \<le> i" and "i < int (length xs)"
  shows "py_index xs i = Inr (xs ! nat (if i < 0 then int (length xs) + i else i))"
  using assms by (simp add: py_index_def Let_def)

lemma py_index_invalid:
  assumes "\<not> (- int (length xs) \<le> i \<and> i < int (length xs))"
  shows "py_index xs i = Inl IndexError"
  using assms by (auto simp: py_index_def Let_def)

text \<open>
  Claim C8 says that \<^verbatim>\<open>__getitem__\<close> returns the record for every dataset and every
  valid index. The constructor does not check that there is a label row for every text: a
  dataset of two texts and one label row has length 2, its tokenizer pads to the default
  length 250, and at the index 1, which is within \<^verbatim>\<open>__len__\<close>, \<^verbatim>\<open>__getitem__\<close>
  raises \<^verbatim>\<open>IndexError\<close> at \<^verbatim>\<open>self.labels[idx]\<close> and returns no record.
\<close>

theorem getitem_without_label_row_counterexample:
  "pads_to_max_length char_tokenizer 250 \<and>
   max_len (CaseNoteDataset_init [''black chair'', ''red chairs''] [[1, 0]] char_tokenizer None)
     = 250 \<and>
   CaseNoteDataset_len
     (CaseNoteDataset_init [''black chair'', ''red chairs''] [[1, 0]] char_tokenizer None) = 2 \<and>
   (\<exists>item. CaseNoteDataset_getitem
     (CaseNoteDataset_init [''black chair'', ''red chairs''] [[1, 0]] char_tokenizer None) 0
     = Inr item) \<and>
   CaseNoteDataset_getitem
     (CaseNoteDataset_init [''black chair'', ''red chairs''] [[1, 0]] char_tokenizer None) 1
     = Inl IndexError"
  by (simp add: pads_to_max_length_char_tokenizer CaseNoteDataset_init_def
      CaseNoteDataset_len_def CaseNoteDataset_getitem_def py_index_def Let_def)

text \<open>
  Claim C8, amended. For a dataset whose tokenizer pads and truncates to the dataset's
  \<^verbatim>\<open>max_len\<close> as the library documents, and an index valid for the dataset (within
  \<^verbatim>\<open>__len__\<close>, counted from either end): when the stored labels have a row at that
  index, \<^verbatim>\<open>__getitem__\<close> returns a dictionary with the keys \<^verbatim>\<open>input_ids\<close>,
  \<^verbatim>\<open>attention_mask\<close> and \<^verbatim>\<open>labels\<close>, where the two token tensors are the rows the
  tokenizer returned for the text at that index and have length \<^verbatim>\<open>max_len\<close> whatever
  the text is, and the label is the row of the stored labels at that index; when the stored
  labels have no row there, it raises \<^verbatim>\<open>IndexError\<close>. Without a \<^verbatim>\<open>max_len\<close>
  argument the length is 250.
\<close>

theorem getitem_fixed_length:
  assumes "pads_to_max_length (tokenizer d) (max_len d)"
    and "- int (CaseNoteDataset_len d) \<le> idx" and "idx < int (CaseNoteDataset_len d)"
  shows "(- int (length (labels d)) \<le> idx \<and> idx < int (length (labels d)) \<longrightarrow>
           (\<exists>item ids mask.
              CaseNoteDataset_getitem d idx = Inr item \<and>
              dom item = {''input_ids'', ''attention_mask'', ''labels''} \<and>
              item ''input_ids'' = Some (LongTensor ids) \<and> length ids = max_len d \<and>
              item ''attention_mask'' = Some (LongTensor mask) \<and> length mask = max_len d \<and>
              input_ids (tokenizer d
                  (texts d ! nat (if idx < 0 then int (length (texts d)) + idx else idx))
                  (max_len d)) = [ids] \<and>
              attention_mask (tokenizer d
                  (texts d ! nat (if idx < 0 then int (length (texts d)) + idx else idx))
                  (max_len d)) = [mask] \<and>
              item ''labels''
                = Some (FloatTensor
                    (labels d ! nat (if idx < 0 then int (length (labels d)) + idx else idx))))) \<and>
         (\<not> (- int (length (labels d)) \<le> idx \<and> idx < int (length (labels d))) \<longrightarrow>
           CaseNoteDataset_getitem d idx = Inl IndexError) \<and>
         max_len (CaseNoteDataset_init t l tok None) = 250 \<and>
         max_len (CaseNoteDataset_init t l tok (Some n)) = n"
proof -
  have default: "max_len (CaseNoteDataset_init t l tok None) = 250"
    "max_len (CaseNoteDataset_init t l tok (Some n)) = n"
    by (simp_all add: CaseNoteDataset_init_def)
  let ?k = "nat (if idx < 0 then int (length (texts d)) + idx else idx)"
  let ?l = "nat (if idx < 0 then int (length (labels d)) + idx else idx)"
  let ?enc = "tokenizer d (texts d ! ?k) (max_len d)"
  have t: "py_index (texts d) idx = Inr (texts d ! ?k)"
    using assms(2,3) by (intro py_index_valid) (simp_all add: CaseNoteDataset_len_def)
  obtain ids where ids: "input_ids ?enc = [ids]" "length ids = max_len d"
    using assms(1) one_row [of "input_ids ?enc" "max_len d"]
    by (auto simp: pads_to_max_length_def)
  obtain mask where mask: "attention_mask ?enc = [mask]" "length mask = max_len d"
    using assms(1) one_row [of "attention_mask ?enc" "max_len d"]
    by (auto simp: pads_to_max_length_def)
  have found: "\<exists>item ids mask.
              CaseNoteDataset_getitem d idx = Inr item \<and>
              dom item = {''input_ids'', ''attention_mask'', ''labels''} \<and>
              item ''input_ids'' = Some (LongTensor ids) \<and> length ids = max_len d \<and>
              item ''attention_mask'' = Some (LongTensor mask) \<and> length mask = max_len d \<and>
              input_ids ?enc = [ids] \<and> attention_mask ?enc = [mask] \<and>
              item ''labels'' = Some (FloatTensor (labels d ! ?l))"
    if v: "- int (length (labels d)) \<le> idx \<and> idx < int (length (labels d))"
  proof -
    have l: "py_index (labels d) idx = Inr (labels d ! ?l)"
      using v by (intro py_index_valid) simp_all
    let ?item = "[''input_ids'' \<mapsto> LongTensor ids, ''attention_mask'' \<mapsto> LongTensor mask,
                  ''labels'' \<mapsto> FloatTensor (labels d ! ?l)]"
    have "CaseNoteDataset_getitem d idx = Inr ?item"
      by (simp add: CaseNoteDataset_getitem_def t l Let_def ids(1) mask(1))
    moreover have "dom ?item = {''input_ids'', ''attention_mask'', ''labels''}" by auto
    moreover have "?item ''input_ids'' = Some (LongTensor ids)"
      "?item ''attention_mask'' = Some (LongTensor mask)"
      "?item ''labels'' = Some (FloatTensor (labels d ! ?l))"
      by simp_all
    ultimately show ?thesis using ids mask by blast
  qed
  have missing: "CaseNoteDataset_getitem d idx = Inl IndexError"
    if "\<not> (- int (length (labels d)) \<le> idx \<and> idx < int (length (labels d)))"
    using py_index_invalid [OF that] by (simp add: CaseNoteDataset_getitem_def t)
  from found missing default show ?thesis by blast
qed

theorem getitem_fixed_length_witness:
  "max_len (CaseNoteDataset_init [''black chair'', ''a''] [[1, 0], [0, 1]] char_tokenizer None) = 250 \<and>
   (\<exists>item ids mask.
      CaseNoteDataset_getitem
        (CaseNoteDataset_init [''black chair'', ''a''] [[1, 0], [0, 1]] char_tokenizer None) 1
        = Inr item \<and>
      dom item = {''input_ids'', ''attention_mask'', ''labels''} \<and>
      item ''input_ids'' = Some (LongTensor ids) \<and> length ids = 250 \<and>
      item ''attention_mask'' = Some (LongTensor mask) \<and> length mask = 250 \<and>
      input_ids (char_tokenizer ''a'' 250) = [ids] \<and>
      attention_mask (char_tokenizer ''a'' 250) = [mask] \<and>
      item ''labels'' = Some (FloatTensor [0, 1])) \<and>
   CaseNoteDataset_getitem
     (CaseNoteDataset_init [''black chair'', ''a''] [[1, 0]] char_tokenizer None) 1
     = Inl IndexError"
  using getitem_fixed_length
      [of "CaseNoteDataset_init [''black chair'', ''a''] [[1, 0], [0, 1]] char_tokenizer None" 1]
    getitem_fixed_length
      [of "CaseNoteDataset_init [''black chair'', ''a''] [[1, 0]] char_tokenizer None" 1]
    pads_to_max_length_char_tokenizer [of 250]
  by (simp add: CaseNoteDataset_init_def CaseNoteDataset_len_def)

text \<open>
  Claim C7 says that in every \<^verbatim>\<open>CaseNoteDataset\<close> the stored texts and the stored
  labels have the same length, the one \<^verbatim>\<open>__len__\<close> returns. The constructor stores
  its arguments without comparing them: a dataset of two texts and one label row has
  length 2, and its item 1 raises \<^verbatim>\<open>IndexError\<close>.
\<close>

theorem dataset_lengths_unchecked_counterexample:
  "CaseNoteDataset_len (CaseNoteDataset_init [''a'', ''b''] [[1, 0]] char_tokenizer None) = 2 \<and>
   length (texts (CaseNoteDataset_init [''a'', ''b''] [[1, 0]] char_tokenizer None)) = 2 \<and>
   length (labels (CaseNoteDataset_init [''a'', ''b''] [[1, 0]] char_tokenizer None)) = 1 \<and>
   length (texts (CaseNoteDataset_init [''a'', ''b''] [[1, 0]] char_tokenizer None))
     \<noteq> length (labels (CaseNoteDataset_init [''a'', ''b''] [[1, 0]] char_tokenizer None)) \<and>
   CaseNoteDataset_getitem (CaseNoteDataset_init [''a'', ''b''] [[1, 0]] char_tokenizer None) 1
     = Inl IndexError"
  by (simp add: CaseNoteDataset_init_def CaseNoteDataset_len_def CaseNoteDataset_getitem_def
      py_index_def)

text \<open>
  Claim C7, amended. \<^verbatim>\<open>__len__\<close> returns the length of the stored texts, and the
  constructor stores texts and labels as they are given. The stored labels have that
  length whenever the constructor is given as many label rows as texts; this is so for the
  two datasets of the notebook when each split has as many texts as label lists, because
  the encoder returns one row per label list. \<^verbatim>\<open>__len__\<close> and \<^verbatim>\<open>__getitem__\<close> return
  values and leave the dataset as it is.
\<close>

theorem dataset_len_is_texts_length:
  "CaseNoteDataset_len (CaseNoteDataset_init t l tok m) = length t \<and>
   texts (CaseNoteDataset_init t l tok m) = t \<and>
   labels (CaseNoteDataset_init t l tok m) = l \<and>
   (length t = length l \<longrightarrow>
      length (labels (CaseNoteDataset_init t l tok m))
        = CaseNoteDataset_len (CaseNoteDataset_init t l tok m)) \<and>
   (length train_texts = length train_labels \<and> length test_texts = length test_labels \<longrightarrow>
      length (labels (fst (notebook_datasets train_texts train_labels test_texts test_labels tok)))
        = CaseNoteDataset_len
            (fst (notebook_datasets train_texts train_labels test_texts test_labels tok)) \<and>
      length (labels (snd (notebook_datasets train_texts train_labels test_texts test_labels tok)))
        = CaseNoteDataset_len
            (snd (notebook_datasets train_texts train_labels test_texts test_labels tok)))"
  by (simp add: CaseNoteDataset_len_def CaseNoteDataset_init_def notebook_datasets_def
      encode_labels_def fit_transform_def Let_def astype_float32_def transform_def)

theorem dataset_len_is_texts_length_witness:
  "CaseNoteDataset_len
     (fst (notebook_datasets [''red chairs'', ''blue chair''] [['' plural''], ['' singular'']]
             [''black chair''] [['' singular'']] char_tokenizer)) = 2 \<and>
   length (labels
     (fst (notebook_datasets [''red chairs'', ''blue chair''] [['' plural''], ['' singular'']]
             [''black chair''] [['' singular'']] char_tokenizer))) = 2 \<and>
   CaseNoteDataset_len
     (snd (notebook_datasets [''red chairs'', ''blue chair''] [['' plural''], ['' singular'']]
             [''black chair''] [['' singular'']] char_tokenizer)) = 1 \<and>
   length (labels
     (snd (notebook_datasets [''red chairs'', ''blue chair''] [['' plural''], ['' singular'']]
             [''black chair''] [['' singular'']] char_tokenizer))) = 1 \<and>
   length (labels (CaseNoteDataset_init [''a''] [[1, 0]] char_tokenizer None))
     = CaseNoteDataset_len (CaseNoteDataset_init [''a''] [[1, 0]] char_tokenizer None)"
proof -
  have n: "CaseNoteDataset_len
     (fst (notebook_datasets [''red chairs'', ''blue chair''] [['' plural''], ['' singular'']]
             [''black chair''] [['' singular'']] char_tokenizer)) = 2"
    "CaseNoteDataset_len
     (snd (notebook_datasets [''red chairs'', ''blue chair''] [['' plural''], ['' singular'']]
             [''black chair''] [['' singular'']] char_tokenizer)) = 1"
    by (simp_all add: notebook_datasets_def encode_labels_def fit_transform_def Let_def
        CaseNoteDataset_len_def CaseNoteDataset_init_def)
  show ?thesis
    using dataset_len_is_texts_length [of "[''a'']" "[[1, 0]]" char_tokenizer None
        "[''red chairs'', ''blue chair'']" "[['' plural''], ['' singular'']]"
        "[''black chair'']" "[['' singular'']]"] n
    by simp
qed

end
